theory Spec2Isabelle
  imports Complex_Main
begin

section \<open>Exceptions\<close>

text \<open>
  Every exception the modelled code can raise is a value. \<open>Exception msg\<close> stands for
  any exception of an external collaborator (transport, detector, swapper, network);
  \<open>HTTPException status detail\<close> is the web framework's; \<open>Str e\<close> is \<open>str(e)\<close>,
  the text of another exception used as a detail.
\<close>

datatype error =
    Exception string
  | IndexError
  | ValueError
  | HTTPException nat detail
and detail =
    Detail string
  | Str error

section \<open>Arrays of samples (numpy.ndarray)\<close>

text \<open>
  An array is its shape and its samples in row-major order. Samples are real numbers:
  every finite value of an integer or floating dtype is one, and clipping and truncation
  are exact on them. A \<open>uint8\<close> array is one whose samples are integers in 0..255.
\<close>

record ndarray =
  shape :: "nat list"
  data :: "real list"

definition ndarray_size :: "ndarray \<Rightarrow> nat" where
  "ndarray_size a = prod_list (shape a)"

definition is_uint8 :: "real \<Rightarrow> bool" where
  "is_uint8 x = (0 \<le> x \<and> x \<le> 255 \<and> x = of_int \<lfloor>x\<rfloor>)"

definition uint8_array :: "ndarray \<Rightarrow> bool" where
  "uint8_array a = list_all is_uint8 (data a)"

text \<open>An array as \<open>to_ndarray(format="bgr24")\<close> returns it: (h, w, 3), \<open>uint8\<close>.\<close>

definition bgr24 :: "ndarray \<Rightarrow> bool" where
  "bgr24 a = (length (shape a) = 3 \<and> shape a ! 2 = 3 \<and> uint8_array a)"

text \<open>\<open>np.zeros((480, 640, 3), dtype=np.uint8)\<close>.\<close>

definition black_frame :: ndarray where
  "black_frame = \<lparr>shape = [480, 640, 3], data = replicate (480 * 640 * 3) 0\<rparr>"

section \<open>frame\_processor.py\<close>

text \<open>
  \<open>cv2.cvtColor(frame, cv2.COLOR_GRAY2BGR)\<close> copies the single channel into three;
  \<open>cv2.cvtColor(frame, cv2.COLOR_BGRA2BGR)\<close> drops the fourth sample of every pixel.
\<close>

definition gray2bgr :: "ndarray \<Rightarrow> ndarray" where
  "gray2bgr a = \<lparr>shape = shape a @ [3], data = concat (map (\<lambda>v. [v, v, v]) (data a))\<rparr>"

fun drop_alpha :: "real list \<Rightarrow> real list" where
  "drop_alpha (b # g # r # a # xs) = b # g # r # drop_alpha xs"
| "drop_alpha _ = []"

definition bgra2bgr :: "ndarray \<Rightarrow> ndarray" where
  "bgra2bgr a = \<lparr>shape = (shape a)[2 := 3], data = drop_alpha (data a)\<rparr>"

text \<open>
  \<open>FrameProcessor\<close>: its only attribute is \<open>target_size\<close>. \<open>cv2.resize\<close> is an
  external utility, passed in as \<open>resize\<close>.
\<close>

record FrameProcessor =
  target_size :: "(nat \<times> nat) option"

definition preprocess_frame ::
  "((nat \<times> nat) \<Rightarrow> ndarray \<Rightarrow> error + ndarray) \<Rightarrow> FrameProcessor \<Rightarrow> ndarray \<Rightarrow> error + ndarray"
where
  "preprocess_frame resize fp frame0 =
     (case (case target_size fp of
              Some ts \<Rightarrow> resize ts frame0
            | None \<Rightarrow> Inr frame0) of
        Inl e \<Rightarrow> Inl e
      | Inr frame \<Rightarrow>
          if length (shape frame) = 2 then Inr (gray2bgr frame)
          else if length (shape frame) < 3 then Inl IndexError
          else if shape frame ! 2 = 4 then Inr (bgra2bgr frame)
          else Inr frame)"

text \<open>
  \<open>np.clip(x, 0, 255)\<close> on one sample; \<open>astype(int)\<close>: truncation towards
  zero; \<open>astype(np.uint8)\<close>: truncation, then wrap-around modulo 256.
\<close>

definition clip :: "real \<Rightarrow> real" where
  "clip x = min 255 (max 0 x)"

definition trunc_int :: "real \<Rightarrow> int" where
  "trunc_int x = (if 0 \<le> x then \<lfloor>x\<rfloor> else \<lceil>x\<rceil>)"

definition astype_uint8 :: "real \<Rightarrow> real" where
  "astype_uint8 x = of_int (trunc_int x mod 256)"

text \<open>The argument is \<open>None\<close> when the frame handed over is Python's \<open>None\<close>.\<close>

definition postprocess_frame :: "ndarray option \<Rightarrow> ndarray" where
  "postprocess_frame frame =
     (case frame of
        None \<Rightarrow> black_frame
      | Some f \<Rightarrow>
          if ndarray_size f = 0 then black_frame
          else \<lparr>shape = shape f, data = map (\<lambda>x. astype_uint8 (clip x)) (data f)\<rparr>)"

section \<open>swap\_engine.py\<close>

text \<open>
  What the external face analyzer returns for one face (\<open>bbox\<close>, \<open>landmark_2d_106\<close>,
  \<open>embedding\<close>, \<open>det_score\<close>), one row of the fallback network's output
  (\<open>detections[0, 0, i, 2]\<close> and \<open>detections[0, 0, i, 3:7]\<close>), and the dictionary
  \<open>detect_faces\<close> builds from either. A key the dictionary lacks is \<open>None\<close>.
\<close>

record analysis =
  analysis_bbox :: "real list"
  landmark_2d_106 :: "real list option"
  analysis_embedding :: "real list option"
  analysis_det_score :: real

record detection =
  confidence :: real
  box :: "real list"

record face =
  bbox :: "int list"
  landmark :: "real list option"
  embedding :: "real list option"
  det_score :: real

text \<open>
  \<open>SwapEngine\<close> after \<open>_load_model\<close>. The collaborators are functions that may raise:
  \<open>face_analyzer.get\<close>, the fallback network's \<open>forward\<close> on the frame's blob, the
  Haar cascade on the frame's grey image, and \<open>swapper.get\<close> (absent when the swapper
  object has no attribute \<open>get\<close>), whose result may be \<open>None\<close>.
\<close>

record Swapper =
  swapper_get :: "(ndarray \<Rightarrow> face \<Rightarrow> ndarray \<Rightarrow> face \<Rightarrow> error + ndarray option) option"

record SwapEngine =
  face_analyzer :: "(ndarray \<Rightarrow> error + analysis list) option"
  face_detector :: "(ndarray \<Rightarrow> error + detection list) option"
  face_cascade :: "ndarray \<Rightarrow> error + (int \<times> int \<times> int \<times> int) list"
  swapper :: "Swapper option"

definition face_of_analysis :: "analysis \<Rightarrow> face" where
  "face_of_analysis a =
     \<lparr>bbox = map trunc_int (analysis_bbox a), landmark = landmark_2d_106 a,
      embedding = analysis_embedding a, det_score = analysis_det_score a\<rparr>"

definition face_of_detection :: "nat \<Rightarrow> nat \<Rightarrow> detection \<Rightarrow> face" where
  "face_of_detection h w d =
     \<lparr>bbox = map trunc_int (map2 (*) (box d) [real w, real h, real w, real h]),
      landmark = None, embedding = None, det_score = confidence d\<rparr>"

definition face_of_rect :: "int \<times> int \<times> int \<times> int \<Rightarrow> face" where
  "face_of_rect r =
     (case r of (x, y, w, h) \<Rightarrow>
        \<lparr>bbox = [x, y, x + w, y + h], landmark = None, embedding = None, det_score = 1\<rparr>)"

definition detect_faces :: "SwapEngine \<Rightarrow> ndarray \<Rightarrow> error + face list" where
  "detect_faces eng frame =
     (case face_analyzer eng of
        Some analyzer \<Rightarrow>
          (case analyzer frame of
             Inl e \<Rightarrow> Inl e
           | Inr faces \<Rightarrow> Inr (map face_of_analysis faces))
      | None \<Rightarrow>
          (case face_detector eng of
             Some net \<Rightarrow>
               (case shape frame of
                  h # w # _ \<Rightarrow>
                    (case net frame of
                       Inl e \<Rightarrow> Inl e
                     | Inr detections \<Rightarrow>
                         Inr (map (face_of_detection h w)
                                (filter (\<lambda>d. confidence d > 0.5) detections)))
                | _ \<Rightarrow> Inl ValueError)
           | None \<Rightarrow>
               (case face_cascade eng frame of
                  Inl e \<Rightarrow> Inl e
                | Inr faces_detected \<Rightarrow> Inr (map face_of_rect faces_detected))))"

definition fallback_swap :: "ndarray \<Rightarrow> ndarray \<Rightarrow> face \<Rightarrow> face \<Rightarrow> ndarray" where
  "fallback_swap source_frame target_frame sface tface = target_frame"

text \<open>
  \<open>swap_face\<close>: the result is \<open>Inl\<close> when the call raises (only a detection outside
  the \<open>try\<close> can), and \<open>Inr None\<close> when the swapper returned \<open>None\<close>.
\<close>

definition swap_face ::
  "SwapEngine \<Rightarrow> ndarray \<Rightarrow> ndarray \<Rightarrow> face option \<Rightarrow> face option \<Rightarrow> error + ndarray option"
where
  "swap_face eng source_frame target_frame sface0 tface0 =
     (case swapper eng of
        None \<Rightarrow> Inr (Some target_frame)
      | Some sw \<Rightarrow>
          (case (case sface0 of
                   Some f \<Rightarrow> Inr (Some f)
                 | None \<Rightarrow>
                     (case detect_faces eng source_frame of
                        Inl e \<Rightarrow> Inl e
                      | Inr [] \<Rightarrow> Inr None
                      | Inr (f # _) \<Rightarrow> Inr (Some f))) of
             Inl e \<Rightarrow> Inl e
           | Inr None \<Rightarrow> Inr (Some target_frame)
           | Inr (Some sface) \<Rightarrow>
               (case (case tface0 of
                        Some f \<Rightarrow> Inr (Some f)
                      | None \<Rightarrow>
                          (case detect_faces eng target_frame of
                             Inl e \<Rightarrow> Inl e
                           | Inr [] \<Rightarrow> Inr None
                           | Inr (f # _) \<Rightarrow> Inr (Some f))) of
                  Inl e \<Rightarrow> Inl e
                | Inr None \<Rightarrow> Inr (Some target_frame)
                | Inr (Some tface) \<Rightarrow>
                    (case swapper_get sw of
                       Some get \<Rightarrow>
                         (case get target_frame tface source_frame sface of
                            Inl e \<Rightarrow> Inr (Some target_frame)
                          | Inr result \<Rightarrow> Inr result)
                     | None \<Rightarrow>
                         Inr (Some (fallback_swap source_frame target_frame sface tface))))))"

section \<open>webrtc\_server.py: the processed video track\<close>

text \<open>
  A \<open>VideoFrame\<close> is modelled by the array \<open>to_ndarray(format="bgr24")\<close> returns for it
  and its timing attributes (\<open>pts\<close> an integer or \<open>None\<close>, \<open>time_base\<close> a fraction or
  \<open>None\<close>). \<open>VideoFrame.from_ndarray(img, format="bgr24")\<close> accepts an array of shape
  (h, w, 3) only and leaves the timing attributes unset.
\<close>

record video_frame =
  array :: ndarray
  pts :: "int option"
  time_base :: "rat option"

definition to_ndarray :: "video_frame \<Rightarrow> ndarray" where
  "to_ndarray frame = array frame"

definition from_ndarray :: "ndarray \<Rightarrow> error + video_frame" where
  "from_ndarray img =
     (if length (shape img) = 3 \<and> shape img ! 2 = 3
      then Inr \<lparr>array = img, pts = None, time_base = None\<rparr>
      else Inl ValueError)"

text \<open>
  The mutable attributes of \<open>ProcessedVideoTrack\<close>. The engine and the frame processor
  it refers to never change and are passed to \<open>recv\<close>.
\<close>

record ProcessedVideoTrack =
  source_face :: "face option"
  frame_count :: nat

text \<open>
  One call of \<open>recv\<close>. The last argument is what \<open>await self.source_track.recv()\<close>
  gives: a frame, or the exception it raises. The result is the track after the call,
  whether the call returned or raised, and the frame returned or the exception raised.
\<close>

definition recv ::
  "((nat \<times> nat) \<Rightarrow> ndarray \<Rightarrow> error + ndarray) \<Rightarrow> SwapEngine \<Rightarrow> FrameProcessor \<Rightarrow>
   ProcessedVideoTrack \<Rightarrow> error + video_frame \<Rightarrow> ProcessedVideoTrack \<times> (error + video_frame)"
where
  "recv resize eng fp t received =
     (case received of
        Inl e \<Rightarrow> (t, Inl e)
      | Inr frame \<Rightarrow>
          (case preprocess_frame resize fp (to_ndarray frame) of
             Inl e \<Rightarrow> (t, Inl e)
           | Inr img \<Rightarrow>
               (case (case source_face t of
                        None \<Rightarrow>
                          (case detect_faces eng img of
                             Inl e \<Rightarrow> Inl e
                           | Inr [] \<Rightarrow> Inr t
                           | Inr (f # _) \<Rightarrow> Inr (t\<lparr>source_face := Some f\<rparr>))
                      | Some _ \<Rightarrow> Inr t) of
                  Inl e \<Rightarrow> (t, Inl e)
                | Inr t1 \<Rightarrow>
                    (let img2 =
                       (case source_face t1 of
                          Some f \<Rightarrow>
                            (case swap_face eng img img (Some f) None of
                               Inl e \<Rightarrow> Some img
                             | Inr result \<Rightarrow> result)
                        | None \<Rightarrow> Some img)
                     in case from_ndarray (postprocess_frame img2) of
                          Inl e \<Rightarrow> (t1, Inl e)
                        | Inr new_frame \<Rightarrow>
                            (t1\<lparr>frame_count := frame_count t1 + 1\<rparr>,
                             Inr (new_frame\<lparr>pts := pts frame, time_base := time_base frame\<rparr>))))))"

text \<open>Successive calls of \<open>recv\<close> on one track, as the transport makes them.\<close>

fun recv_all ::
  "((nat \<times> nat) \<Rightarrow> ndarray \<Rightarrow> error + ndarray) \<Rightarrow> SwapEngine \<Rightarrow> FrameProcessor \<Rightarrow>
   ProcessedVideoTrack \<Rightarrow> (error + video_frame) list \<Rightarrow>
   ProcessedVideoTrack \<times> (error + video_frame) list"
where
  "recv_all resize eng fp t [] = (t, [])"
| "recv_all resize eng fp t (x # xs) =
     (case recv resize eng fp t x of
        (t1, r) \<Rightarrow>
          (case recv_all resize eng fp t1 xs of
             (t2, rs) \<Rightarrow> (t2, r # rs)))"

text \<open>
  The identity the swap of \<open>recv\<close> runs with on a normalized frame: the cached one, or
  the one captured on this frame; none when no swap runs.
\<close>

definition identity_in_use :: "SwapEngine \<Rightarrow> ProcessedVideoTrack \<Rightarrow> ndarray \<Rightarrow> face option" where
  "identity_in_use eng t img =
     (case source_face t of
        Some f \<Rightarrow> Some f
      | None \<Rightarrow>
          (case detect_faces eng img of
             Inl e \<Rightarrow> None
           | Inr [] \<Rightarrow> None
           | Inr (f # _) \<Rightarrow> Some f))"

text \<open>
  The swap of \<open>recv\<close> on the normalized frame \<open>img\<close> with identity \<open>f\<close> raises:
  the detection of the target face raises (\<open>swap_face\<close> raises, caught by \<open>recv\<close>),
  or \<open>swapper.get\<close> is called and raises (caught inside \<open>swap_face\<close>).
\<close>

definition swap_raises :: "SwapEngine \<Rightarrow> ndarray \<Rightarrow> face \<Rightarrow> bool" where
  "swap_raises eng img f =
     (case swapper eng of
        None \<Rightarrow> False
      | Some sw \<Rightarrow>
          (case detect_faces eng img of
             Inl e \<Rightarrow> True
           | Inr [] \<Rightarrow> False
           | Inr (tface # _) \<Rightarrow>
               (case swapper_get sw of
                  None \<Rightarrow> False
                | Some get \<Rightarrow> isl (get img tface img f))))"

section \<open>webrtc\_server.py: the server\<close>

text \<open>
  A peer connection of the transport library: an identity (Python compares the objects
  by identity) and the \<open>connectionState\<close> attribute, which the transport sets.
  \<open>WebRTCServer.pcs\<close> is a set of these objects; \<open>created\<close> counts the connections
  made so far and gives each new object its identity.
\<close>

record peer_connection =
  pc_id :: nat
  connectionState :: string

record WebRTCServer =
  pcs :: "peer_connection list"
  created :: nat

definition create_peer_connection :: "WebRTCServer \<Rightarrow> WebRTCServer \<times> peer_connection" where
  "create_peer_connection srv =
     (let pc = \<lparr>pc_id = created srv, connectionState = ''new''\<rparr>
      in (srv\<lparr>pcs := pcs srv @ [pc], created := Suc (created srv)\<rparr>, pc))"

text \<open>
  A session: a peer connection with the processed track that \<open>on_track\<close> added to it
  (\<open>pc.addTrack(processed_track)\<close>). The transport sends what \<open>recv\<close> of the track
  returns; \<open>recv\<close> holds no reference to the connection, whose \<open>connectionState\<close>
  only the transport sets.
\<close>

record media_session =
  connection :: peer_connection
  processed_track :: ProcessedVideoTrack

definition media_recv ::
  "((nat \<times> nat) \<Rightarrow> ndarray \<Rightarrow> error + ndarray) \<Rightarrow> SwapEngine \<Rightarrow> FrameProcessor \<Rightarrow>
   media_session \<Rightarrow> error + video_frame \<Rightarrow> media_session \<times> (error + video_frame)"
where
  "media_recv resize eng fp s received =
     (case recv resize eng fp (processed_track s) received of
        (t, r) \<Rightarrow> (s\<lparr>processed_track := t\<rparr>, r))"

fun media_recv_all ::
  "((nat \<times> nat) \<Rightarrow> ndarray \<Rightarrow> error + ndarray) \<Rightarrow> SwapEngine \<Rightarrow> FrameProcessor \<Rightarrow>
   media_session \<Rightarrow> (error + video_frame) list \<Rightarrow> media_session \<times> (error + video_frame) list"
where
  "media_recv_all resize eng fp s [] = (s, [])"
| "media_recv_all resize eng fp s (x # xs) =
     (case media_recv resize eng fp s x of
        (s1, r) \<Rightarrow>
          (case media_recv_all resize eng fp s1 xs of
             (s2, rs) \<Rightarrow> (s2, r # rs)))"

text \<open>
  Python values of the control plane: JSON values, \<open>None\<close> being \<open>JNull\<close>; a
  dictionary is a list of key-value pairs with distinct keys.
\<close>

datatype json =
    JNull
  | JStr string
  | JInt int
  | JReal real
  | JObj "(string \<times> json) list"

type_synonym dict = "(string \<times> json) list"

fun truthy :: "json \<Rightarrow> bool" where
  "truthy JNull = False"
| "truthy (JStr s) = (s \<noteq> [])"
| "truthy (JInt i) = (i \<noteq> 0)"
| "truthy (JReal r) = (r \<noteq> 0)"
| "truthy (JObj kvs) = (kvs \<noteq> [])"

definition dict_get :: "dict \<Rightarrow> string \<Rightarrow> json" where
  "dict_get d k = (case map_of d k of None \<Rightarrow> JNull | Some v \<Rightarrow> v)"

definition dict_get_default :: "dict \<Rightarrow> string \<Rightarrow> json \<Rightarrow> json" where
  "dict_get_default d k v0 = (case map_of d k of None \<Rightarrow> v0 | Some v \<Rightarrow> v)"

text \<open>
  \<open>handle_offer\<close>. \<open>negotiate\<close> is the transport: \<open>setRemoteDescription\<close>,
  \<open>createAnswer\<close>, \<open>setLocalDescription\<close> and the answer's SDP, or the exception one of
  them raises. The connection is added to \<open>pcs\<close> before the transport is called.
\<close>

definition handle_offer ::
  "(json \<Rightarrow> error + string) \<Rightarrow> WebRTCServer \<Rightarrow> json \<Rightarrow> WebRTCServer \<times> (error + string)"
where
  "handle_offer negotiate srv offer_sdp =
     (case create_peer_connection srv of
        (srv1, pc) \<Rightarrow> (srv1, negotiate offer_sdp))"

definition get_active_connections :: "WebRTCServer \<Rightarrow> nat" where
  "get_active_connections srv =
     length (filter (\<lambda>pc. connectionState pc = ''connected'') (pcs srv))"

section \<open>config.py and signaling\_client.py\<close>

record Config =
  health_check_interval :: int
  max_sessions :: int
  idle_timeout :: int

text \<open>
  \<open>SignalingClient\<close>: \<open>session\<close> says whether the HTTP client session exists. A request
  sent to the orchestrator is recorded as its URL and JSON body.
\<close>

record SignalingClient =
  orchestrator_url :: "string option"
  node_id :: "string option"
  session :: bool

datatype request = POST string dict

definition has_url :: "SignalingClient \<Rightarrow> bool" where
  "has_url c = (case orchestrator_url c of None \<Rightarrow> False | Some u \<Rightarrow> u \<noteq> [])"

definition str_opt :: "string option \<Rightarrow> string" where
  "str_opt v = (case v of None \<Rightarrow> ''None'' | Some s \<Rightarrow> s)"

text \<open>
  \<open>receive_offer\<close>: \<open>response\<close> is the orchestrator's reply to the GET (status and
  JSON body) or the exception raised by the request.
\<close>

definition receive_offer :: "SignalingClient \<Rightarrow> error + nat \<times> dict \<Rightarrow> dict option" where
  "receive_offer c response =
     (if \<not> session c \<or> \<not> has_url c then None
      else case response of
             Inl e \<Rightarrow> None
           | Inr (status, body) \<Rightarrow>
               if status = 200 then (if body \<noteq> [] then Some body else None) else None)"

text \<open>
  \<open>send_answer\<close> and \<open>send_health_update\<close>: the requests issued (none or one) and the
  value returned; \<open>response\<close> is the status of the reply or the exception raised.
\<close>

definition send_answer ::
  "SignalingClient \<Rightarrow> error + nat \<Rightarrow> string \<Rightarrow> json \<Rightarrow> request list \<times> bool"
where
  "send_answer c response answer_sdp session_id =
     (if \<not> session c \<or> \<not> has_url c then ([], False)
      else ([POST (str_opt (orchestrator_url c) @ ''/nodes/'' @ str_opt (node_id c) @ ''/answers'')
                  [(''session_id'', session_id), (''answer'', JStr answer_sdp)]],
            (case response of Inl e \<Rightarrow> False | Inr status \<Rightarrow> status = 200)))"

definition send_health_update ::
  "SignalingClient \<Rightarrow> error + nat \<Rightarrow> dict \<Rightarrow> request list \<times> bool"
where
  "send_health_update c response health_data =
     (if \<not> session c \<or> \<not> has_url c then ([], False)
      else ([POST (str_opt (orchestrator_url c) @ ''/nodes/'' @ str_opt (node_id c) @ ''/health'')
                  health_data],
            (case response of Inl e \<Rightarrow> False | Inr status \<Rightarrow> status = 200)))"

section \<open>main.py\<close>

text \<open>
  The module's globals after startup, the time in seconds (advanced by
  \<open>asyncio.sleep\<close>) and the requests sent to the orchestrator so far.
\<close>

record node =
  config :: Config
  webrtc_server :: "WebRTCServer option"
  signaling_client :: "SignalingClient option"
  clock :: int
  posted :: "request list"

definition sleep :: "int \<Rightarrow> node \<Rightarrow> node" where
  "sleep d n = n\<lparr>clock := clock n + max 0 d\<rparr>"

text \<open>
  \<open>handle_signaling_offer\<close> (the push path). Every exception raised in the body,
  the handler's own 503 and 400 included, is caught and raised again with status 500.
\<close>

definition handle_signaling_offer ::
  "(json \<Rightarrow> error + string) \<Rightarrow> node \<Rightarrow> dict \<Rightarrow> node \<times> (error + dict)"
where
  "handle_signaling_offer negotiate n offer_data =
     (case webrtc_server n of
        None \<Rightarrow>
          (n, Inl (HTTPException 500
                     (Str (HTTPException 503 (Detail ''WebRTC server not initialized'')))))
      | Some srv \<Rightarrow>
          (let offer_sdp = dict_get offer_data ''offer'' in
           if \<not> truthy offer_sdp
           then (n, Inl (HTTPException 500 (Str (HTTPException 400 (Detail ''Missing offer SDP'')))))
           else (case handle_offer negotiate srv offer_sdp of
                   (srv1, Inl e) \<Rightarrow>
                     (n\<lparr>webrtc_server := Some srv1\<rparr>, Inl (HTTPException 500 (Str e)))
                 | (srv1, Inr answer_sdp) \<Rightarrow>
                     (n\<lparr>webrtc_server := Some srv1\<rparr>,
                      Inr [(''answer'', JStr answer_sdp),
                           (''session_id'',
                            dict_get_default offer_data ''session_id'' (JStr ''unknown''))]))))"

text \<open>
  One iteration of \<open>health_reporting_task\<close>. \<open>gpu_memory\<close> is what the engine's
  \<open>get_gpu_memory_usage\<close> reports.
\<close>

definition health_reporting_step :: "json \<Rightarrow> error + nat \<Rightarrow> node \<Rightarrow> node" where
  "health_reporting_step gpu_memory response n0 =
     (let n = sleep (health_check_interval (config n0)) n0 in
      case signaling_client n of
        None \<Rightarrow> n
      | Some client \<Rightarrow>
          if has_url client
          then (let health_data =
                      [(''status'', JStr ''ok''),
                       (''gpu_memory'', gpu_memory),
                       (''active_sessions'',
                        JInt (case webrtc_server n of
                                None \<Rightarrow> 0
                              | Some srv \<Rightarrow> int (get_active_connections srv)))]
                in n\<lparr>posted := posted n @ fst (send_health_update client response health_data)\<rparr>)
          else n)"

text \<open>
  The first iterations of the loop of \<open>health_reporting_task\<close>, one for each pair of
  a resource report and a reply of the orchestrator.
\<close>

fun health_reporting_task :: "(json \<times> (error + nat)) list \<Rightarrow> node \<Rightarrow> node" where
  "health_reporting_task [] n = n"
| "health_reporting_task ((gpu_memory, response) # rest) n =
     health_reporting_task rest (health_reporting_step gpu_memory response n)"

text \<open>
  One iteration of \<open>signaling_polling_task\<close> (the pull path). An exception of
  \<open>handle_offer\<close> ends the iteration; the connection it created stays in \<open>pcs\<close>.
\<close>

definition signaling_polling_step ::
  "(json \<Rightarrow> error + string) \<Rightarrow> error + nat \<times> dict \<Rightarrow> error + nat \<Rightarrow> node \<Rightarrow> node"
where
  "signaling_polling_step negotiate get_response post_response n0 =
     (let n = sleep 1 n0 in
      case signaling_client n of
        None \<Rightarrow> n
      | Some client \<Rightarrow>
          (case receive_offer client get_response of
             None \<Rightarrow> n
           | Some offer \<Rightarrow>
               (case webrtc_server n of
                  None \<Rightarrow> n
                | Some srv \<Rightarrow>
                    (let offer_sdp = dict_get offer ''offer'';
                         session_id = dict_get offer ''session_id''
                     in if truthy offer_sdp
                        then (case handle_offer negotiate srv offer_sdp of
                                (srv1, Inl e) \<Rightarrow> n\<lparr>webrtc_server := Some srv1\<rparr>
                              | (srv1, Inr answer_sdp) \<Rightarrow>
                                  n\<lparr>webrtc_server := Some srv1,
                                    posted := posted n @
                                      fst (send_answer client post_response answer_sdp session_id)\<rparr>)
                        else n))))"

text \<open>
  The sessions of the node that are not in a terminal state (failed or closed), and the
  count the health report gives.
\<close>

definition non_terminal :: "peer_connection \<Rightarrow> bool" where
  "non_terminal pc = (connectionState pc \<notin> set [''failed'', ''closed''])"

definition non_terminal_sessions :: "node \<Rightarrow> nat" where
  "non_terminal_sessions n =
     (case webrtc_server n of
        None \<Rightarrow> 0
      | Some srv \<Rightarrow> length (filter non_terminal (pcs srv)))"

definition active_count :: "node \<Rightarrow> nat" where
  "active_count n =
     (case webrtc_server n of
        None \<Rightarrow> 0
      | Some srv \<Rightarrow> get_active_connections srv)"

section \<open>The identity cache as the specification words it\<close>

text \<open>
  What the detector finds on one received frame (nothing when no frame arrives, or
  normalization or detection raises), and the identity a sequence of detector outputs
  defines: the first face of the first output that has one.
\<close>

definition detections_of ::
  "((nat \<times> nat) \<Rightarrow> ndarray \<Rightarrow> error + ndarray) \<Rightarrow> SwapEngine \<Rightarrow> FrameProcessor \<Rightarrow>
   error + video_frame \<Rightarrow> face list"
where
  "detections_of resize eng fp received =
     (case received of
        Inl e \<Rightarrow> []
      | Inr frame \<Rightarrow>
          (case preprocess_frame resize fp (to_ndarray frame) of
             Inl e \<Rightarrow> []
           | Inr img \<Rightarrow> (case detect_faces eng img of Inl e \<Rightarrow> [] | Inr faces \<Rightarrow> faces)))"

fun first_identity :: "face list list \<Rightarrow> face option" where
  "first_identity [] = None"
| "first_identity ([] # rest) = first_identity rest"
| "first_identity ((f # _) # rest) = Some f"

section \<open>Concrete inputs\<close>

text \<open>
  The frame processor and a track as \<open>main.py\<close> and the server construct them, a
  one-pixel frame, two-pixel arrays of one and of four channels, and engines whose
  collaborators find no face, find two faces and fail every swap, return \<open>None\<close>
  from the swap, fail the swap on one frame only, or fail every detection.
\<close>

definition same_size :: "(nat \<times> nat) \<Rightarrow> ndarray \<Rightarrow> error + ndarray" where
  "same_size ts a = Inr a"

definition default_processor :: FrameProcessor where
  "default_processor = \<lparr>target_size = None\<rparr>"

definition new_track :: ProcessedVideoTrack where
  "new_track = \<lparr>source_face = None, frame_count = 0\<rparr>"

definition pixel_frame :: video_frame where
  "pixel_frame =
     \<lparr>array = \<lparr>shape = [1, 1, 3], data = [10, 20, 30]\<rparr>,
      pts = Some 3000, time_base = Some (Fract 1 90000)\<rparr>"

definition gray_image :: ndarray where
  "gray_image = \<lparr>shape = [1, 2], data = [7, 200]\<rparr>"

definition bgra_image :: ndarray where
  "bgra_image = \<lparr>shape = [1, 2, 4], data = [1, 2, 3, 4, 5, 6, 7, 8]\<rparr>"

definition blind_engine :: SwapEngine where
  "blind_engine =
     \<lparr>face_analyzer = Some (\<lambda>img. Inr []), face_detector = None,
      face_cascade = (\<lambda>img. Inr []), swapper = None\<rparr>"

definition weak_analysis :: analysis where
  "weak_analysis =
     \<lparr>analysis_bbox = [0, 0, 1, 1], landmark_2d_106 = None,
      analysis_embedding = Some [1, 0], analysis_det_score = 6 / 10\<rparr>"

definition strong_analysis :: analysis where
  "strong_analysis =
     \<lparr>analysis_bbox = [0, 0, 1, 1], landmark_2d_106 = None,
      analysis_embedding = Some [0, 1], analysis_det_score = 9 / 10\<rparr>"

definition failing_swapper :: Swapper where
  "failing_swapper =
     \<lparr>swapper_get = Some (\<lambda>tf t sf s. Inl (Exception ''swap failed''))\<rparr>"

definition two_face_engine :: SwapEngine where
  "two_face_engine =
     \<lparr>face_analyzer = Some (\<lambda>img. Inr [weak_analysis, strong_analysis]),
      face_detector = None, face_cascade = (\<lambda>img. Inr []),
      swapper = Some failing_swapper\<rparr>"

definition none_swapper :: Swapper where
  "none_swapper = \<lparr>swapper_get = Some (\<lambda>tf t sf s. Inr None)\<rparr>"

definition none_swap_engine :: SwapEngine where
  "none_swap_engine =
     \<lparr>face_analyzer = Some (\<lambda>img. Inr [weak_analysis]),
      face_detector = None, face_cascade = (\<lambda>img. Inr []),
      swapper = Some none_swapper\<rparr>"

definition flaky_swapper :: Swapper where
  "flaky_swapper =
     \<lparr>swapper_get = Some (\<lambda>tf t sf s.
        if tf = array pixel_frame then Inl (Exception ''swap failed'') else Inr (Some tf))\<rparr>"

definition flaky_engine :: SwapEngine where
  "flaky_engine =
     \<lparr>face_analyzer = Some (\<lambda>img. Inr [weak_analysis]),
      face_detector = None, face_cascade = (\<lambda>img. Inr []),
      swapper = Some flaky_swapper\<rparr>"

definition down_engine :: SwapEngine where
  "down_engine =
     \<lparr>face_analyzer = Some (\<lambda>img. Inl (Exception ''detector down'')),
      face_detector = None, face_cascade = (\<lambda>img. Inr []),
      swapper = Some none_swapper\<rparr>"

definition captured_track :: ProcessedVideoTrack where
  "captured_track = \<lparr>source_face = Some (face_of_analysis weak_analysis), frame_count = 7\<rparr>"

definition connected_session :: media_session where
  "connected_session =
     \<lparr>connection = \<lparr>pc_id = 0, connectionState = ''connected''\<rparr>,
      processed_track = new_track\<rparr>"

text \<open>
  The configuration defaults of \<open>config.py\<close>, a transport that answers every offer,
  a node after startup with no connection, the same node with one connected session,
  offers, and a resource report of the engine.
\<close>

definition default_config :: Config where
  "default_config = \<lparr>health_check_interval = 30, max_sessions = 1, idle_timeout = 300\<rparr>"

definition answering_transport :: "json \<Rightarrow> error + string" where
  "answering_transport offer_sdp = Inr ''v=0 answer''"

definition started_client :: SignalingClient where
  "started_client =
     \<lparr>orchestrator_url = Some ''http://orchestrator'', node_id = Some ''node-1'', session = True\<rparr>"

definition started_node :: node where
  "started_node =
     \<lparr>config = default_config,
      webrtc_server = Some \<lparr>pcs = [], created = 0\<rparr>,
      signaling_client = Some started_client,
      clock = 0, posted = []\<rparr>"

definition connected_node :: node where
  "connected_node =
     \<lparr>config = default_config,
      webrtc_server = Some \<lparr>pcs = [\<lparr>pc_id = 0, connectionState = ''connected''\<rparr>], created = 1\<rparr>,
      signaling_client = Some started_client,
      clock = 0, posted = []\<rparr>"

definition offer_s1 :: dict where
  "offer_s1 = [(''session_id'', JStr ''s1''), (''offer'', JStr ''v=0 s1'')]"

definition offer_s2 :: dict where
  "offer_s2 = [(''session_id'', JStr ''s2''), (''offer'', JStr ''v=0 s2'')]"

definition offer_without_id :: dict where
  "offer_without_id = [(''offer'', JStr ''v=0'')]"

definition cpu_memory :: json where
  "cpu_memory = JObj [(''allocated'', JInt 0), (''reserved'', JInt 0), (''max_allocated'', JInt 0)]"

section \<open>Properties of the frame processor\<close>

lemma clip_range: "0 \<le> clip x \<and> clip x \<le> 255"
  by (simp add: clip_def)

lemma astype_uint8_clip: "astype_uint8 (clip x) = of_int \<lfloor>clip x\<rfloor>"
proof -
  have lo: "0 \<le> \<lfloor>clip x\<rfloor>" using clip_range [of x] by simp
  have "\<lfloor>clip x\<rfloor> \<le> 255" using clip_range [of x] by (simp add: floor_le_iff)
  then have "\<lfloor>clip x\<rfloor> mod 256 = \<lfloor>clip x\<rfloor>" using lo by simp
  then show ?thesis using clip_range [of x] by (simp add: astype_uint8_def trunc_int_def)
qed

lemma is_uint8_quantized: "is_uint8 (astype_uint8 (clip x))"
proof -
  have lo: "0 \<le> \<lfloor>clip x\<rfloor>" using clip_range [of x] by simp
  have hi: "\<lfloor>clip x\<rfloor> \<le> 255" using clip_range [of x] by (simp add: floor_le_iff)
  have "(of_int \<lfloor>clip x\<rfloor> :: real) \<le> of_int 255" using hi by (simp only: of_int_le_iff)
  then show ?thesis using lo by (simp add: is_uint8_def astype_uint8_clip)
qed

lemma clip_uint8:
  assumes "is_uint8 x"
  shows "astype_uint8 (clip x) = x"
proof -
  have c: "clip x = x" using assms by (simp add: is_uint8_def clip_def)
  have "astype_uint8 (clip x) = of_int \<lfloor>clip x\<rfloor>" by (rule astype_uint8_clip)
  also have "\<dots> = of_int \<lfloor>x\<rfloor>" by (simp only: c)
  also have "\<dots> = x" using assms unfolding is_uint8_def by (elim conjE) (erule sym)
  finally show ?thesis .
qed

lemma postprocess_uint8_id:
  assumes "uint8_array a" and "ndarray_size a \<noteq> 0"
  shows "postprocess_frame (Some a) = a"
proof -
  have "map (\<lambda>x. astype_uint8 (clip x)) (data a) = data a"
    using assms(1) by (simp add: uint8_array_def list_all_iff clip_uint8 map_idI)
  then show ?thesis using assms(2) by (simp add: postprocess_frame_def)
qed

lemma black_frame_shape: "shape black_frame = [480, 640, 3]"
  by (simp add: black_frame_def)

lemma black_frame_data: "data black_frame = replicate (480 * 640 * 3) 0"
  by (simp add: black_frame_def)

section \<open>C7: postprocessing\<close>

text \<open>
  Claim C7. \<open>postprocess_frame\<close> replaces an absent frame and a frame of size zero by
  the black frame of shape (480, 640, 3), all samples 0. Any other frame keeps its
  shape, and each sample \<open>x\<close> becomes the integer part of \<open>x\<close> clipped into [0, 255],
  which is an integer in 0..255 (a \<open>uint8\<close> sample).
\<close>

theorem postprocess_frame_clips_and_quantizes:
  "postprocess_frame None = black_frame
   \<and> (ndarray_size f = 0 \<longrightarrow> postprocess_frame (Some f) = black_frame)
   \<and> (ndarray_size f \<noteq> 0 \<longrightarrow>
        shape (postprocess_frame (Some f)) = shape f
      \<and> data (postprocess_frame (Some f)) = map (\<lambda>x. of_int \<lfloor>min 255 (max 0 x)\<rfloor>) (data f)
      \<and> list_all is_uint8 (data (postprocess_frame (Some f))))
   \<and> shape black_frame = [480, 640, 3]
   \<and> data black_frame = replicate (480 * 640 * 3) 0"
proof -
  have a: "postprocess_frame None = black_frame"
    by (simp add: postprocess_frame_def)
  have b: "ndarray_size f = 0 \<longrightarrow> postprocess_frame (Some f) = black_frame"
    by (simp add: postprocess_frame_def)
  have c: "ndarray_size f \<noteq> 0 \<longrightarrow>
        shape (postprocess_frame (Some f)) = shape f
      \<and> data (postprocess_frame (Some f)) = map (\<lambda>x. of_int \<lfloor>min 255 (max 0 x)\<rfloor>) (data f)
      \<and> list_all is_uint8 (data (postprocess_frame (Some f)))"
  proof
    assume nz: "ndarray_size f \<noteq> 0"
    have d: "data (postprocess_frame (Some f)) = map (\<lambda>x. astype_uint8 (clip x)) (data f)"
      using nz by (simp add: postprocess_frame_def)
    have e: "(\<lambda>x. astype_uint8 (clip x)) = (\<lambda>x. of_int \<lfloor>min 255 (max 0 x)\<rfloor>)"
      by (rule ext) (simp only: astype_uint8_clip, simp only: clip_def)
    have "list_all is_uint8 (map (\<lambda>x. astype_uint8 (clip x)) (data f))"
      by (simp add: list_all_iff is_uint8_quantized)
    then show "shape (postprocess_frame (Some f)) = shape f
      \<and> data (postprocess_frame (Some f)) = map (\<lambda>x. of_int \<lfloor>min 255 (max 0 x)\<rfloor>) (data f)
      \<and> list_all is_uint8 (data (postprocess_frame (Some f)))"
      using nz d e by (simp add: postprocess_frame_def)
  qed
  show ?thesis using a b c black_frame_shape black_frame_data by blast
qed

theorem postprocess_frame_clips_and_quantizes_witness:
  "postprocess_frame (Some \<lparr>shape = [1, 2, 3], data = [-5, 0, 127 / 10, 255, 300, 509 / 2]\<rparr>)
     = \<lparr>shape = [1, 2, 3], data = [0, 0, 12, 255, 255, 254]\<rparr>
   \<and> postprocess_frame (Some \<lparr>shape = [0, 2, 3], data = []\<rparr>) = black_frame
   \<and> postprocess_frame None = black_frame
   \<and> shape black_frame = [480, 640, 3]"
proof -
  have nz: "ndarray_size \<lparr>shape = [1, 2, 3], data = [-5, 0, 127 / 10, 255, 300, 509 / 2]\<rparr> \<noteq> 0"
    by (simp add: ndarray_size_def)
  have z: "ndarray_size \<lparr>shape = [0, 2, 3], data = []\<rparr> = 0"
    by (simp add: ndarray_size_def)
  have f1: "\<lfloor>127 / 10 :: real\<rfloor> = 12" by simp
  have f2: "\<lfloor>509 / 2 :: real\<rfloor> = 254" by simp
  show ?thesis
    using nz z f1 f2
      postprocess_frame_clips_and_quantizes
        [of "\<lparr>shape = [1, 2, 3], data = [-5, 0, 127 / 10, 255, 300, 509 / 2]\<rparr>"]
      postprocess_frame_clips_and_quantizes [of "\<lparr>shape = [0, 2, 3], data = []\<rparr>"]
    by (simp add: ndarray.equality)
qed

section \<open>Properties of \<open>recv\<close>\<close>

lemma recv_source_face:
  "source_face (fst (recv resize eng fp t x)) =
     (case source_face t of
        Some f \<Rightarrow> Some f
      | None \<Rightarrow> (case detections_of resize eng fp x of [] \<Rightarrow> None | f # _ \<Rightarrow> Some f))"
  by (auto simp: recv_def detections_of_def Let_def split: sum.splits option.splits list.splits)

lemma recv_all_source_face:
  "source_face (fst (recv_all resize eng fp t frames)) =
     (case source_face t of
        Some f \<Rightarrow> Some f
      | None \<Rightarrow> first_identity (map (detections_of resize eng fp) frames))"
proof (induction frames arbitrary: t)
  case Nil
  then show ?case by (simp split: option.splits)
next
  case (Cons x xs)
  obtain t1 r where r1: "recv resize eng fp t x = (t1, r)" by (cases "recv resize eng fp t x")
  obtain t2 rs where r2: "recv_all resize eng fp t1 xs = (t2, rs)"
    by (cases "recv_all resize eng fp t1 xs")
  have s1: "source_face t1 =
     (case source_face t of
        Some f \<Rightarrow> Some f
      | None \<Rightarrow> (case detections_of resize eng fp x of [] \<Rightarrow> None | f # _ \<Rightarrow> Some f))"
    using recv_source_face [of resize eng fp t x] r1 by simp
  have s2: "source_face t2 =
     (case source_face t1 of
        Some f \<Rightarrow> Some f
      | None \<Rightarrow> first_identity (map (detections_of resize eng fp) xs))"
    using Cons.IH [of t1] r2 by simp
  have "source_face (fst (recv_all resize eng fp t (x # xs))) = source_face t2"
    using r1 r2 by simp
  then show ?case using s1 s2
    by (cases "source_face t"; cases "detections_of resize eng fp x") simp_all
qed

lemma preprocess_bgr24:
  "target_size fp = None \<Longrightarrow> bgr24 a \<Longrightarrow> preprocess_frame resize fp a = Inr a"
  by (simp add: preprocess_frame_def bgr24_def)

lemma from_ndarray_bgr24:
  "bgr24 a \<Longrightarrow> from_ndarray a = Inr \<lparr>array = a, pts = None, time_base = None\<rparr>"
  by (simp add: from_ndarray_def bgr24_def)

lemma emit_bgr24:
  assumes "bgr24 a" and "ndarray_size a \<noteq> 0"
  shows "from_ndarray (postprocess_frame (Some a)) = Inr \<lparr>array = a, pts = None, time_base = None\<rparr>"
  using assms by (simp add: postprocess_uint8_id from_ndarray_bgr24 bgr24_def)

lemma recv_none_result:
  assumes "source_face t = Some f"
    and "preprocess_frame resize fp (to_ndarray frame) = Inr img"
    and "swap_face eng img img (Some f) None = Inr None"
  shows "recv resize eng fp t (Inr frame)
           = (t\<lparr>frame_count := frame_count t + 1\<rparr>, Inr (frame\<lparr>array := black_frame\<rparr>))"
proof -
  have e: "from_ndarray (postprocess_frame None)
             = Inr \<lparr>array = black_frame, pts = None, time_base = None\<rparr>"
    by (simp add: postprocess_frame_def from_ndarray_def black_frame_shape)
  show ?thesis using assms e by (simp add: recv_def)
qed

lemma drop_alpha_subset: "set (drop_alpha xs) \<subseteq> set xs"
  by (induction xs rule: drop_alpha.induct) auto

lemma recv_no_face:
  assumes pre: "preprocess_frame resize fp (to_ndarray frame) = Inr img"
    and cache: "source_face t = None"
    and det: "detect_faces eng img = Inr []"
    and ok: "bgr24 img" "ndarray_size img \<noteq> 0"
  shows "recv resize eng fp t (Inr frame)
           = (t\<lparr>frame_count := frame_count t + 1\<rparr>, Inr (frame\<lparr>array := img\<rparr>))"
proof -
  have "from_ndarray (postprocess_frame (Some img))
          = Inr \<lparr>array = img, pts = None, time_base = None\<rparr>"
    using ok by (rule emit_bgr24)
  then show ?thesis using pre cache det by (simp add: recv_def)
qed

lemma pixel_frame_bgr24: "bgr24 (array pixel_frame) \<and> ndarray_size (array pixel_frame) \<noteq> 0"
  by (simp add: bgr24_def pixel_frame_def uint8_array_def is_uint8_def ndarray_size_def)

lemma recv_blind:
  "recv same_size blind_engine default_processor new_track (Inr pixel_frame) =
     (new_track\<lparr>frame_count := 1\<rparr>, Inr pixel_frame)"
proof -
  have p: "preprocess_frame same_size default_processor (to_ndarray pixel_frame) = Inr (array pixel_frame)"
    by (simp add: preprocess_frame_def default_processor_def to_ndarray_def pixel_frame_def)
  have d: "detect_faces blind_engine (array pixel_frame) = Inr []"
    by (simp add: detect_faces_def blind_engine_def)
  have e: "from_ndarray (postprocess_frame (Some (array pixel_frame)))
             = Inr \<lparr>array = array pixel_frame, pts = None, time_base = None\<rparr>"
    using pixel_frame_bgr24 by (simp add: emit_bgr24)
  show ?thesis using p d e by (simp add: recv_def new_track_def)
qed

lemma swap_raises_keeps_frame:
  assumes "swap_raises eng img f"
  shows "(case swap_face eng img img (Some f) None of Inl e \<Rightarrow> Some img | Inr result \<Rightarrow> result)
           = Some img"
proof -
  obtain sw where sw: "swapper eng = Some sw"
    using assms by (cases "swapper eng") (simp_all add: swap_raises_def)
  show ?thesis
  proof (cases "detect_faces eng img")
    case (Inl e)
    then show ?thesis using sw by (simp add: swap_face_def)
  next
    case (Inr faces)
    show ?thesis
    proof (cases faces)
      case Nil
      then show ?thesis using Inr sw by (simp add: swap_face_def)
    next
      case (Cons tface rest)
      show ?thesis
      proof (cases "swapper_get sw")
        case None
        then show ?thesis using Inr Cons sw by (simp add: swap_face_def fallback_swap_def)
      next
        case (Some g)
        then have "isl (g img tface img f)"
          using assms sw Inr Cons by (simp add: swap_raises_def)
        then obtain e where "g img tface img f = Inl e"
          by (cases "g img tface img f") simp_all
        then show ?thesis using Inr Cons sw Some by (simp add: swap_face_def)
      qed
    qed
  qed
qed

lemma recv_swap_raises:
  assumes pre: "preprocess_frame resize fp (to_ndarray frame) = Inr img"
    and ok: "bgr24 img" "ndarray_size img \<noteq> 0"
    and id: "identity_in_use eng t img = Some f"
    and sw: "swap_raises eng img f"
  shows "recv resize eng fp t (Inr frame)
           = (\<lparr>source_face = Some f, frame_count = frame_count t + 1\<rparr>,
              Inr (frame\<lparr>array := img\<rparr>))"
proof -
  have emit: "from_ndarray (postprocess_frame (Some img))
                = Inr \<lparr>array = img, pts = None, time_base = None\<rparr>"
    using ok by (rule emit_bgr24)
  have swp: "(case swap_face eng img img (Some f) None of
                Inl e \<Rightarrow> Some img | Inr result \<Rightarrow> result) = Some img"
    using sw by (rule swap_raises_keeps_frame)
  show ?thesis
  proof (cases "source_face t")
    case (Some f')
    then have "f' = f" using id by (simp add: identity_in_use_def)
    then show ?thesis using Some pre emit swp by (simp add: recv_def)
  next
    case None
    then obtain rest where d: "detect_faces eng img = Inr (f # rest)"
      using id by (auto simp: identity_in_use_def split: sum.splits list.splits)
    show ?thesis using None d pre emit swp by (simp add: recv_def)
  qed
qed

lemma media_recv_all_swap_raises:
  assumes fp: "target_size fp = None"
  shows "identity_in_use eng (processed_track s) (array fr) = Some f \<Longrightarrow>
         (\<forall>x \<in> set (fr # frs). bgr24 (array x) \<and> ndarray_size (array x) \<noteq> 0
                                  \<and> swap_raises eng (array x) f) \<Longrightarrow>
         media_recv_all resize eng fp s (map Inr (fr # frs))
           = (s\<lparr>processed_track :=
                  \<lparr>source_face = Some f,
                   frame_count = frame_count (processed_track s) + length (fr # frs)\<rparr>\<rparr>,
              map Inr (fr # frs))"
proof (induction frs arbitrary: s fr)
  case Nil
  have p: "preprocess_frame resize fp (to_ndarray fr) = Inr (array fr)"
    using fp Nil.prems(2) by (simp add: to_ndarray_def preprocess_bgr24)
  have "recv resize eng fp (processed_track s) (Inr fr)
           = (\<lparr>source_face = Some f, frame_count = frame_count (processed_track s) + 1\<rparr>,
              Inr (fr\<lparr>array := array fr\<rparr>))"
    using recv_swap_raises [OF p _ _ Nil.prems(1)] Nil.prems(2) by simp
  then show ?case by (simp add: media_recv_def)
next
  case (Cons fr2 frs)
  have p: "preprocess_frame resize fp (to_ndarray fr) = Inr (array fr)"
    using fp Cons.prems(2) by (simp add: to_ndarray_def preprocess_bgr24)
  have r: "recv resize eng fp (processed_track s) (Inr fr)
           = (\<lparr>source_face = Some f, frame_count = frame_count (processed_track s) + 1\<rparr>,
              Inr (fr\<lparr>array := array fr\<rparr>))"
    using recv_swap_raises [OF p _ _ Cons.prems(1)] Cons.prems(2) by simp
  let ?s1 = "s\<lparr>processed_track :=
                \<lparr>source_face = Some f, frame_count = frame_count (processed_track s) + 1\<rparr>\<rparr>"
  have m: "media_recv resize eng fp s (Inr fr) = (?s1, Inr fr)"
    using r by (simp add: media_recv_def)
  have id1: "identity_in_use eng (processed_track ?s1) (array fr2) = Some f"
    by (simp add: identity_in_use_def)
  have rest: "\<forall>x \<in> set (fr2 # frs). bgr24 (array x) \<and> ndarray_size (array x) \<noteq> 0
                                  \<and> swap_raises eng (array x) f"
    using Cons.prems(2) by simp
  have ih: "media_recv_all resize eng fp ?s1 (map Inr (fr2 # frs))
           = (?s1\<lparr>processed_track :=
                  \<lparr>source_face = Some f,
                   frame_count = frame_count (processed_track ?s1) + length (fr2 # frs)\<rparr>\<rparr>,
              map Inr (fr2 # frs))"
    using Cons.IH [OF id1 rest] .
  have "media_recv_all resize eng fp s (map Inr (fr # fr2 # frs))
          = (case media_recv_all resize eng fp ?s1 (map Inr (fr2 # frs)) of
               (s2, rs) \<Rightarrow> (s2, Inr fr # rs))"
    using m by simp
  then show ?case using ih by simp
qed

lemma pixel_preprocess:
  "preprocess_frame same_size default_processor (to_ndarray pixel_frame) = Inr (array pixel_frame)"
  by (simp add: preprocess_frame_def default_processor_def to_ndarray_def pixel_frame_def)

lemma expand_length: "length (concat (map (\<lambda>v. [v, v, v]) xs)) = 3 * length xs"
  by (induction xs) simp_all

lemma expand_nth:
  "i < length xs \<Longrightarrow> c < 3 \<Longrightarrow> concat (map (\<lambda>v. [v, v, v]) xs) ! (3 * i + c) = xs ! i"
proof (induction xs arbitrary: i)
  case Nil
  then show ?case by simp
next
  case (Cons x xs)
  show ?case
  proof (cases i)
    case 0
    have "c = 0 \<or> c = 1 \<or> c = 2" using Cons.prems(2) by arith
    then show ?thesis using 0 by auto
  next
    case (Suc j)
    have "3 * i + c = Suc (Suc (Suc (3 * j + c)))" using Suc by simp
    then show ?thesis using Suc Cons.IH [of j] Cons.prems by simp
  qed
qed

lemma drop_alpha_length: "length xs = 4 * n \<Longrightarrow> length (drop_alpha xs) = 3 * n"
proof (induction xs arbitrary: n rule: drop_alpha.induct)
  case (1 b g r a xs)
  then obtain m where n: "n = Suc m" by (cases n) simp_all
  then have "length xs = 4 * m" using "1.prems" by simp
  then show ?case using "1.IH" [of m] n by simp
qed simp_all

lemma drop_alpha_nth:
  "length xs = 4 * n \<Longrightarrow> i < n \<Longrightarrow> c < 3 \<Longrightarrow> drop_alpha xs ! (3 * i + c) = xs ! (4 * i + c)"
proof (induction xs arbitrary: n i rule: drop_alpha.induct)
  case (1 b g r a xs)
  then obtain m where n: "n = Suc m" by (cases n) simp_all
  then have len: "length xs = 4 * m" using "1.prems" by simp
  show ?case
  proof (cases i)
    case 0
    have "c = 0 \<or> c = 1 \<or> c = 2" using "1.prems"(3) by arith
    then show ?thesis using 0 by auto
  next
    case (Suc j)
    have j: "j < m" using Suc "1.prems"(2) n by simp
    have e1: "3 * i + c = Suc (Suc (Suc (3 * j + c)))" using Suc by simp
    have e2: "4 * i + c = Suc (Suc (Suc (Suc (4 * j + c))))" using Suc by simp
    show ?thesis using "1.IH" [OF len j "1.prems"(3)] by (simp only: e1 e2 drop_alpha.simps nth_Cons_Suc)
  qed
qed simp_all

lemma preprocess_gray:
  assumes "target_size fp = None" and "shape a = [h, w]" and "length (data a) = h * w"
  shows "\<exists>img. preprocess_frame resize fp a = Inr img \<and> shape img = [h, w, 3]
           \<and> length (data img) = h * w * 3
           \<and> (\<forall>i<h * w. \<forall>c<3. data img ! (3 * i + c) = data a ! i)
           \<and> (uint8_array a \<longrightarrow> bgr24 img)"
proof -
  have p: "preprocess_frame resize fp a = Inr (gray2bgr a)"
    using assms(1,2) by (simp add: preprocess_frame_def)
  have s: "shape (gray2bgr a) = [h, w, 3]" using assms(2) by (simp add: gray2bgr_def)
  have l: "length (data (gray2bgr a)) = h * w * 3"
    using assms(3) by (simp add: gray2bgr_def expand_length)
  have n: "\<forall>i<h * w. \<forall>c<3. data (gray2bgr a) ! (3 * i + c) = data a ! i"
    using assms(3) by (simp add: gray2bgr_def expand_nth)
  have u: "uint8_array a \<longrightarrow> bgr24 (gray2bgr a)"
    using s by (auto simp: bgr24_def gray2bgr_def uint8_array_def list_all_iff)
  show ?thesis using p s l n u by blast
qed

lemma preprocess_bgra:
  assumes "target_size fp = None" and "shape a = [h, w, 4]" and "length (data a) = h * w * 4"
  shows "\<exists>img. preprocess_frame resize fp a = Inr img \<and> shape img = [h, w, 3]
           \<and> length (data img) = h * w * 3
           \<and> (\<forall>i<h * w. \<forall>c<3. data img ! (3 * i + c) = data a ! (4 * i + c))
           \<and> (uint8_array a \<longrightarrow> bgr24 img)"
proof -
  have len: "length (data a) = 4 * (h * w)" using assms(3) by simp
  have p: "preprocess_frame resize fp a = Inr (bgra2bgr a)"
    using assms(1,2) by (simp add: preprocess_frame_def)
  have s: "shape (bgra2bgr a) = [h, w, 3]" using assms(2) by (simp add: bgra2bgr_def)
  have l: "length (data (bgra2bgr a)) = h * w * 3"
    using drop_alpha_length [OF len] by (simp add: bgra2bgr_def)
  have n: "\<forall>i<h * w. \<forall>c<3. data (bgra2bgr a) ! (3 * i + c) = data a ! (4 * i + c)"
    using drop_alpha_nth [OF len] by (simp add: bgra2bgr_def)
  have u: "uint8_array a \<longrightarrow> bgr24 (bgra2bgr a)"
    using s drop_alpha_subset [of "data a"]
    by (auto simp: bgr24_def bgra2bgr_def uint8_array_def list_all_iff)
  show ?thesis using p s l n u by blast
qed

lemma preprocess_other:
  "target_size fp = None \<Longrightarrow> 3 \<le> length (shape a) \<Longrightarrow> shape a ! 2 \<noteq> 4 \<Longrightarrow>
     preprocess_frame resize fp a = Inr a"
  by (simp add: preprocess_frame_def)

section \<open>C3: the identity cache\<close>

text \<open>
  Claim C3. Over any sequence of calls of \<open>recv\<close> on a track (frames arriving or
  not, any call returning or raising): a cache that holds an identity holds the same
  identity afterwards; an empty cache ends up holding the first face of the first frame
  on which the detector finds one, and stays empty when there is none, so capture is
  attempted on every frame until it succeeds.
\<close>

theorem identity_cache_idempotent_capture:
  "(source_face t = Some f \<longrightarrow>
      source_face (fst (recv_all resize eng fp t frames)) = Some f)
   \<and> (source_face t = None \<longrightarrow>
      source_face (fst (recv_all resize eng fp t frames))
        = first_identity (map (detections_of resize eng fp) frames))"
  by (simp add: recv_all_source_face)

theorem identity_cache_idempotent_capture_witness:
  "source_face (fst (recv_all same_size two_face_engine default_processor new_track
       [Inl (Exception ''track ended''), Inr pixel_frame, Inr pixel_frame]))
     = Some (face_of_analysis weak_analysis)
   \<and> source_face (fst (recv_all same_size blind_engine default_processor new_track
       [Inr pixel_frame, Inr pixel_frame])) = None
   \<and> source_face (fst (recv_all same_size two_face_engine default_processor
       (new_track\<lparr>source_face := Some (face_of_analysis strong_analysis)\<rparr>)
       [Inr pixel_frame, Inr pixel_frame]))
     = Some (face_of_analysis strong_analysis)"
proof -
  have e: "source_face new_track = None" by (simp add: new_track_def)
  have s: "source_face (new_track\<lparr>source_face := Some (face_of_analysis strong_analysis)\<rparr>)
             = Some (face_of_analysis strong_analysis)" by simp
  have d1: "first_identity (map (detections_of same_size two_face_engine default_processor)
              [Inl (Exception ''track ended''), Inr pixel_frame, Inr pixel_frame])
            = Some (face_of_analysis weak_analysis)"
    by (simp add: detections_of_def same_size_def two_face_engine_def default_processor_def
          pixel_frame_def preprocess_frame_def to_ndarray_def detect_faces_def)
  have d2: "first_identity (map (detections_of same_size blind_engine default_processor)
              [Inr pixel_frame, Inr pixel_frame]) = None"
    by (simp add: detections_of_def same_size_def blind_engine_def default_processor_def
          pixel_frame_def preprocess_frame_def to_ndarray_def detect_faces_def)
  show ?thesis
    using e s d1 d2
      identity_cache_idempotent_capture [of new_track _ same_size two_face_engine default_processor
        "[Inl (Exception ''track ended''), Inr pixel_frame, Inr pixel_frame]"]
      identity_cache_idempotent_capture [of new_track _ same_size blind_engine default_processor
        "[Inr pixel_frame, Inr pixel_frame]"]
      identity_cache_idempotent_capture
        [of "new_track\<lparr>source_face := Some (face_of_analysis strong_analysis)\<rparr>"
            "face_of_analysis strong_analysis" same_size two_face_engine default_processor
            "[Inr pixel_frame, Inr pixel_frame]"]
    by simp
qed

section \<open>C4: which identity is captured\<close>

text \<open>
  Claim C4 as stated fails: with the detector returning a face of score 0.6 followed by
  one of score 0.9, the cache takes the first, not the one of highest score.
\<close>

theorem capture_ignores_score_counterexample:
  "detect_faces two_face_engine (array pixel_frame)
     = Inr [face_of_analysis weak_analysis, face_of_analysis strong_analysis]
   \<and> det_score (face_of_analysis weak_analysis) < det_score (face_of_analysis strong_analysis)
   \<and> source_face (fst (recv same_size two_face_engine default_processor new_track (Inr pixel_frame)))
       = Some (face_of_analysis weak_analysis)
   \<and> source_face (fst (recv same_size two_face_engine default_processor new_track (Inr pixel_frame)))
       \<noteq> Some (face_of_analysis strong_analysis)"
proof -
  have d: "detect_faces two_face_engine (array pixel_frame)
     = Inr [face_of_analysis weak_analysis, face_of_analysis strong_analysis]"
    by (simp add: detect_faces_def two_face_engine_def)
  have sc: "det_score (face_of_analysis weak_analysis) < det_score (face_of_analysis strong_analysis)"
    by (simp add: face_of_analysis_def weak_analysis_def strong_analysis_def)
  have p: "preprocess_frame same_size default_processor (to_ndarray pixel_frame) = Inr (array pixel_frame)"
    by (simp add: preprocess_frame_def default_processor_def to_ndarray_def pixel_frame_def)
  have dd: "detections_of same_size two_face_engine default_processor (Inr pixel_frame)
     = [face_of_analysis weak_analysis, face_of_analysis strong_analysis]"
    using p d by (simp add: detections_of_def)
  have r: "source_face (fst (recv same_size two_face_engine default_processor new_track (Inr pixel_frame)))
       = Some (face_of_analysis weak_analysis)"
    using dd by (simp add: recv_source_face new_track_def)
  have ne: "face_of_analysis weak_analysis \<noteq> face_of_analysis strong_analysis"
    using sc by auto
  show ?thesis using d sc r ne by simp
qed

text \<open>
  Claim C4, amended. When capture runs (the cache is empty) and the detector returns at
  least one identity for the normalized frame, the cached identity is the first one in
  detector output order, whatever the scores.
\<close>

theorem capture_takes_first_detected:
  assumes "source_face t = None"
    and "preprocess_frame resize fp (to_ndarray frame) = Inr img"
    and "detect_faces eng img = Inr (f # rest)"
  shows "source_face (fst (recv resize eng fp t (Inr frame))) = Some f"
  using assms by (simp add: recv_source_face detections_of_def)

theorem capture_takes_first_detected_witness:
  "source_face (fst (recv same_size two_face_engine default_processor new_track (Inr pixel_frame)))
     = Some (face_of_analysis weak_analysis)"
proof -
  have c: "source_face new_track = None" by (simp add: new_track_def)
  have p: "preprocess_frame same_size default_processor (to_ndarray pixel_frame) = Inr (array pixel_frame)"
    by (simp add: preprocess_frame_def default_processor_def to_ndarray_def pixel_frame_def)
  have d: "detect_faces two_face_engine (array pixel_frame)
     = Inr (face_of_analysis weak_analysis # [face_of_analysis strong_analysis])"
    by (simp add: detect_faces_def two_face_engine_def)
  show ?thesis by (rule capture_takes_first_detected [OF c p d])
qed

section \<open>C5: timing metadata\<close>

text \<open>
  Claim C5. Whenever \<open>recv\<close> returns a frame for an input frame, the output's
  presentation timestamp and time base are the input's.
\<close>

theorem recv_keeps_timing:
  "recv resize eng fp t (Inr frame) = (t', Inr out) \<Longrightarrow>
     pts out = pts frame \<and> time_base out = time_base frame"
  by (auto simp: recv_def Let_def split: sum.splits option.splits list.splits)

theorem recv_keeps_timing_witness:
  "recv same_size blind_engine default_processor new_track (Inr pixel_frame)
     = (new_track\<lparr>frame_count := 1\<rparr>, Inr pixel_frame)
   \<and> pts pixel_frame = Some 3000 \<and> time_base pixel_frame = Some (Fract 1 90000)"
  using recv_keeps_timing [OF recv_blind] recv_blind by (simp add: pixel_frame_def)

section \<open>C6: a failing swap\<close>

text \<open>
  Claim C6 as stated fails for a swap that returns invalid output: when the swapper
  returns \<open>None\<close>, \<open>recv\<close> does not raise, but the frame it returns is the black
  frame of shape (480, 640, 3), not the current frame.
\<close>

theorem invalid_swap_output_counterexample:
  "swap_face none_swap_engine (array pixel_frame) (array pixel_frame)
       (Some (face_of_analysis weak_analysis)) None = Inr None
   \<and> recv same_size none_swap_engine default_processor new_track (Inr pixel_frame)
       = (\<lparr>source_face = Some (face_of_analysis weak_analysis), frame_count = 1\<rparr>,
          Inr (pixel_frame\<lparr>array := black_frame\<rparr>))
   \<and> black_frame \<noteq> array pixel_frame"
proof -
  have p: "preprocess_frame same_size default_processor (to_ndarray pixel_frame) = Inr (array pixel_frame)"
    by (simp add: preprocess_frame_def default_processor_def to_ndarray_def pixel_frame_def)
  have d: "detect_faces none_swap_engine (array pixel_frame) = Inr [face_of_analysis weak_analysis]"
    by (simp add: detect_faces_def none_swap_engine_def)
  have s: "swap_face none_swap_engine (array pixel_frame) (array pixel_frame)
       (Some (face_of_analysis weak_analysis)) None = Inr None"
    using d by (simp add: swap_face_def none_swap_engine_def none_swapper_def)
  have e: "from_ndarray (postprocess_frame None)
             = Inr \<lparr>array = black_frame, pts = None, time_base = None\<rparr>"
    by (simp add: postprocess_frame_def from_ndarray_def black_frame_shape)
  have r: "recv same_size none_swap_engine default_processor new_track (Inr pixel_frame)
       = (\<lparr>source_face = Some (face_of_analysis weak_analysis), frame_count = 1\<rparr>,
          Inr (pixel_frame\<lparr>array := black_frame\<rparr>))"
    using p d s e by (simp add: recv_def new_track_def pixel_frame_def)
  have "shape black_frame \<noteq> shape (array pixel_frame)"
    by (simp add: black_frame_shape pixel_frame_def)
  then have n: "black_frame \<noteq> array pixel_frame" by auto
  show ?thesis using s r n by simp
qed

text \<open>
  Claim C6, amended. For every frame on which the swap runs (an identity is cached, or
  captured on that frame) and raises, be it \<open>swap_face\<close> raising or \<open>swapper.get\<close>
  raising inside it, \<open>recv\<close> does not raise: for a non-empty bgr24 frame it returns
  the current (normalized) frame unmodified and goes on. In particular, over any run of
  such frames (100 for instance) on a processor without target size, the frames returned
  are the frames received, one for one, and the session never transitions to Failed:
  its connection, and so its \<open>connectionState\<close>, is unchanged. When the swap instead
  returns \<open>None\<close>, \<open>recv\<close> returns the black frame with the timing of the current
  frame.
\<close>

theorem swap_failure_is_contained:
  "(preprocess_frame resize fp (to_ndarray frame) = Inr img
      \<and> bgr24 img \<and> ndarray_size img \<noteq> 0
      \<and> identity_in_use eng t img = Some f \<and> swap_raises eng img f
    \<longrightarrow> recv resize eng fp t (Inr frame)
          = (\<lparr>source_face = Some f, frame_count = frame_count t + 1\<rparr>,
             Inr (frame\<lparr>array := img\<rparr>)))
   \<and> (target_size fp = None
      \<and> identity_in_use eng (processed_track s) (array fr) = Some f
      \<and> (\<forall>x \<in> set (fr # frs). bgr24 (array x) \<and> ndarray_size (array x) \<noteq> 0
                                  \<and> swap_raises eng (array x) f)
    \<longrightarrow> snd (media_recv_all resize eng fp s (map Inr (fr # frs))) = map Inr (fr # frs)
      \<and> connection (fst (media_recv_all resize eng fp s (map Inr (fr # frs)))) = connection s
      \<and> processed_track (fst (media_recv_all resize eng fp s (map Inr (fr # frs))))
          = \<lparr>source_face = Some f,
             frame_count = frame_count (processed_track s) + length (fr # frs)\<rparr>)
   \<and> (source_face t' = Some f'
      \<and> preprocess_frame resize fp (to_ndarray frame) = Inr img
      \<and> swap_face eng img img (Some f') None = Inr None
    \<longrightarrow> recv resize eng fp t' (Inr frame)
          = (t'\<lparr>frame_count := frame_count t' + 1\<rparr>, Inr (frame\<lparr>array := black_frame\<rparr>)))"
proof (intro conjI impI)
  assume "preprocess_frame resize fp (to_ndarray frame) = Inr img
      \<and> bgr24 img \<and> ndarray_size img \<noteq> 0
      \<and> identity_in_use eng t img = Some f \<and> swap_raises eng img f"
  then show "recv resize eng fp t (Inr frame)
          = (\<lparr>source_face = Some f, frame_count = frame_count t + 1\<rparr>,
             Inr (frame\<lparr>array := img\<rparr>))"
    using recv_swap_raises [of resize fp frame img eng t f] by simp
next
  assume a: "target_size fp = None
      \<and> identity_in_use eng (processed_track s) (array fr) = Some f
      \<and> (\<forall>x \<in> set (fr # frs). bgr24 (array x) \<and> ndarray_size (array x) \<noteq> 0
                                  \<and> swap_raises eng (array x) f)"
  have r: "media_recv_all resize eng fp s (map Inr (fr # frs))
           = (s\<lparr>processed_track :=
                  \<lparr>source_face = Some f,
                   frame_count = frame_count (processed_track s) + length (fr # frs)\<rparr>\<rparr>,
              map Inr (fr # frs))"
    using a media_recv_all_swap_raises [of fp eng s fr f frs resize] by blast
  show "snd (media_recv_all resize eng fp s (map Inr (fr # frs))) = map Inr (fr # frs)"
    by (simp only: r snd_conv)
  show "connection (fst (media_recv_all resize eng fp s (map Inr (fr # frs)))) = connection s"
    by (simp only: r fst_conv) simp
  show "processed_track (fst (media_recv_all resize eng fp s (map Inr (fr # frs))))
          = \<lparr>source_face = Some f,
             frame_count = frame_count (processed_track s) + length (fr # frs)\<rparr>"
    by (simp only: r fst_conv) simp
next
  assume "source_face t' = Some f'
      \<and> preprocess_frame resize fp (to_ndarray frame) = Inr img
      \<and> swap_face eng img img (Some f') None = Inr None"
  then show "recv resize eng fp t' (Inr frame)
          = (t'\<lparr>frame_count := frame_count t' + 1\<rparr>, Inr (frame\<lparr>array := black_frame\<rparr>))"
    using recv_none_result [of t' f' resize fp frame img eng] by simp
qed

theorem swap_failure_is_contained_witness:
  "recv same_size flaky_engine default_processor captured_track (Inr pixel_frame)
     = (\<lparr>source_face = Some (face_of_analysis weak_analysis), frame_count = 8\<rparr>, Inr pixel_frame)
   \<and> \<not> swap_raises flaky_engine bgra_image (face_of_analysis weak_analysis)
   \<and> recv same_size down_engine default_processor captured_track (Inr pixel_frame)
     = (\<lparr>source_face = Some (face_of_analysis weak_analysis), frame_count = 8\<rparr>, Inr pixel_frame)
   \<and> snd (media_recv_all same_size two_face_engine default_processor connected_session
          (map Inr (pixel_frame # replicate 99 pixel_frame)))
       = map Inr (pixel_frame # replicate 99 pixel_frame)
   \<and> length (snd (media_recv_all same_size two_face_engine default_processor connected_session
          (map Inr (pixel_frame # replicate 99 pixel_frame)))) = 100
   \<and> connectionState (connection (fst (media_recv_all same_size two_face_engine
          default_processor connected_session (map Inr (pixel_frame # replicate 99 pixel_frame)))))
       = ''connected''
   \<and> processed_track (fst (media_recv_all same_size two_face_engine
          default_processor connected_session (map Inr (pixel_frame # replicate 99 pixel_frame))))
       = \<lparr>source_face = Some (face_of_analysis weak_analysis), frame_count = 100\<rparr>
   \<and> recv same_size none_swap_engine default_processor captured_track (Inr pixel_frame)
       = (\<lparr>source_face = Some (face_of_analysis weak_analysis), frame_count = 8\<rparr>,
          Inr (pixel_frame\<lparr>array := black_frame\<rparr>))"
proof -
  let ?w = "face_of_analysis weak_analysis"
  have ok: "bgr24 (array pixel_frame) \<and> ndarray_size (array pixel_frame) \<noteq> 0"
    by (rule pixel_frame_bgr24)
  have c: "source_face captured_track = Some ?w \<and> frame_count captured_track = 7"
    by (simp add: captured_track_def)
  have i1: "identity_in_use flaky_engine captured_track (array pixel_frame) = Some ?w"
    by (simp add: identity_in_use_def captured_track_def)
  have r1: "swap_raises flaky_engine (array pixel_frame) ?w"
    by (simp add: swap_raises_def flaky_engine_def flaky_swapper_def detect_faces_def)
  have n1: "\<not> swap_raises flaky_engine bgra_image ?w"
    by (simp add: swap_raises_def flaky_engine_def flaky_swapper_def detect_faces_def
          bgra_image_def pixel_frame_def)
  have i2: "identity_in_use down_engine captured_track (array pixel_frame) = Some ?w"
    by (simp add: identity_in_use_def captured_track_def)
  have r2: "swap_raises down_engine (array pixel_frame) ?w"
    by (simp add: swap_raises_def down_engine_def detect_faces_def)
  have t: "target_size default_processor = None" by (simp add: default_processor_def)
  have i3: "identity_in_use two_face_engine (processed_track connected_session) (array pixel_frame)
              = Some ?w"
    by (simp add: identity_in_use_def connected_session_def new_track_def detect_faces_def
          two_face_engine_def)
  have r3: "swap_raises two_face_engine (array pixel_frame) ?w"
    by (simp add: swap_raises_def two_face_engine_def failing_swapper_def detect_faces_def)
  have a3: "\<forall>x \<in> set (pixel_frame # replicate 99 pixel_frame).
              bgr24 (array x) \<and> ndarray_size (array x) \<noteq> 0
              \<and> swap_raises two_face_engine (array x) ?w"
    using ok r3 by simp
  have s0: "connection connected_session = \<lparr>pc_id = 0, connectionState = ''connected''\<rparr>
            \<and> frame_count (processed_track connected_session) = 0"
    by (simp add: connected_session_def new_track_def)
  have d: "detect_faces none_swap_engine (array pixel_frame) = Inr [?w]"
    by (simp add: detect_faces_def none_swap_engine_def)
  have b3: "swap_face none_swap_engine (array pixel_frame) (array pixel_frame) (Some ?w) None
              = Inr None"
    using d by (simp add: swap_face_def none_swap_engine_def none_swapper_def)
  have w1: "recv same_size flaky_engine default_processor captured_track (Inr pixel_frame)
     = (\<lparr>source_face = Some ?w, frame_count = 8\<rparr>, Inr pixel_frame)"
    using swap_failure_is_contained
      [where resize = same_size and fp = default_processor and frame = pixel_frame
         and img = "array pixel_frame" and eng = flaky_engine and t = captured_track and f = ?w]
      pixel_preprocess ok i1 r1 c
    by simp
  have w2: "recv same_size down_engine default_processor captured_track (Inr pixel_frame)
     = (\<lparr>source_face = Some ?w, frame_count = 8\<rparr>, Inr pixel_frame)"
    using swap_failure_is_contained
      [where resize = same_size and fp = default_processor and frame = pixel_frame
         and img = "array pixel_frame" and eng = down_engine and t = captured_track and f = ?w]
      pixel_preprocess ok i2 r2 c
    by simp
  have w3: "snd (media_recv_all same_size two_face_engine default_processor connected_session
          (map Inr (pixel_frame # replicate 99 pixel_frame)))
       = map Inr (pixel_frame # replicate 99 pixel_frame)
     \<and> connection (fst (media_recv_all same_size two_face_engine default_processor
          connected_session (map Inr (pixel_frame # replicate 99 pixel_frame))))
       = connection connected_session
     \<and> processed_track (fst (media_recv_all same_size two_face_engine default_processor
          connected_session (map Inr (pixel_frame # replicate 99 pixel_frame))))
       = \<lparr>source_face = Some ?w,
          frame_count = frame_count (processed_track connected_session)
                        + length (pixel_frame # replicate 99 pixel_frame)\<rparr>"
    using swap_failure_is_contained
      [where resize = same_size and fp = default_processor and eng = two_face_engine
         and s = connected_session and fr = pixel_frame and frs = "replicate 99 pixel_frame"
         and f = ?w]
      t i3 a3
    by blast
  have w4: "recv same_size none_swap_engine default_processor captured_track (Inr pixel_frame)
       = (captured_track\<lparr>frame_count := frame_count captured_track + 1\<rparr>,
          Inr (pixel_frame\<lparr>array := black_frame\<rparr>))"
    using swap_failure_is_contained
      [where resize = same_size and fp = default_processor and frame = pixel_frame
         and img = "array pixel_frame" and eng = none_swap_engine and t' = captured_track
         and f' = ?w]
      pixel_preprocess c b3
    by simp
  have w4': "captured_track\<lparr>frame_count := frame_count captured_track + 1\<rparr>
              = \<lparr>source_face = Some ?w, frame_count = 8\<rparr>"
    by (simp add: captured_track_def)
  have len: "length (map Inr (pixel_frame # replicate 99 pixel_frame) :: (error + video_frame) list)
               = 100"
    by simp
  show ?thesis
    using w1 n1 w2 w3 w4 w4' s0 len by simp
qed

section \<open>C8: a frame without a face\<close>

text \<open>
  Claim C8. With an empty identity cache and no face detected, \<open>recv\<close> returns the
  frame with its pixel content unchanged apart from layout normalization. A non-empty
  bgr24 frame, as \<open>recv\<close> receives it on a processor without target size, comes back
  as it is; in general the output array is the normalized array. Normalization, on a
  processor without target size: a single-channel (h, w) array becomes (h, w, 3) with
  each sample repeated three times; a four-channel (h, w, 4) array becomes (h, w, 3)
  with the first three samples of each pixel; an array of three or more dimensions whose
  third is not 4 is unchanged; \<open>uint8\<close> samples stay \<open>uint8\<close>.
\<close>

theorem no_face_round_trip:
  "(source_face t = None \<and> target_size fp = None
      \<and> bgr24 (array frame) \<and> ndarray_size (array frame) \<noteq> 0
      \<and> detect_faces eng (array frame) = Inr []
    \<longrightarrow> recv resize eng fp t (Inr frame) = (t\<lparr>frame_count := frame_count t + 1\<rparr>, Inr frame))
   \<and> (source_face t = None \<and> preprocess_frame resize fp (to_ndarray frame) = Inr img
      \<and> bgr24 img \<and> ndarray_size img \<noteq> 0 \<and> detect_faces eng img = Inr []
    \<longrightarrow> recv resize eng fp t (Inr frame)
          = (t\<lparr>frame_count := frame_count t + 1\<rparr>, Inr (frame\<lparr>array := img\<rparr>)))
   \<and> (target_size fp = None \<and> shape a = [h, w] \<and> length (data a) = h * w
    \<longrightarrow> (\<exists>img. preprocess_frame resize fp a = Inr img \<and> shape img = [h, w, 3]
           \<and> length (data img) = h * w * 3
           \<and> (\<forall>i<h * w. \<forall>c<3. data img ! (3 * i + c) = data a ! i)
           \<and> (uint8_array a \<longrightarrow> bgr24 img)))
   \<and> (target_size fp = None \<and> shape a = [h, w, 4] \<and> length (data a) = h * w * 4
    \<longrightarrow> (\<exists>img. preprocess_frame resize fp a = Inr img \<and> shape img = [h, w, 3]
           \<and> length (data img) = h * w * 3
           \<and> (\<forall>i<h * w. \<forall>c<3. data img ! (3 * i + c) = data a ! (4 * i + c))
           \<and> (uint8_array a \<longrightarrow> bgr24 img)))
   \<and> (target_size fp = None \<and> 3 \<le> length (shape a) \<and> shape a ! 2 \<noteq> 4
    \<longrightarrow> preprocess_frame resize fp a = Inr a)"
proof (intro conjI impI)
  assume a: "source_face t = None \<and> target_size fp = None
      \<and> bgr24 (array frame) \<and> ndarray_size (array frame) \<noteq> 0
      \<and> detect_faces eng (array frame) = Inr []"
  then have p: "preprocess_frame resize fp (to_ndarray frame) = Inr (array frame)"
    by (simp add: to_ndarray_def preprocess_bgr24)
  show "recv resize eng fp t (Inr frame) = (t\<lparr>frame_count := frame_count t + 1\<rparr>, Inr frame)"
    using a recv_no_face [OF p, of t eng] by simp
next
  assume "source_face t = None \<and> preprocess_frame resize fp (to_ndarray frame) = Inr img
      \<and> bgr24 img \<and> ndarray_size img \<noteq> 0 \<and> detect_faces eng img = Inr []"
  then show "recv resize eng fp t (Inr frame)
          = (t\<lparr>frame_count := frame_count t + 1\<rparr>, Inr (frame\<lparr>array := img\<rparr>))"
    using recv_no_face [of resize fp frame img t eng] by simp
next
  assume "target_size fp = None \<and> shape a = [h, w] \<and> length (data a) = h * w"
  then show "\<exists>img. preprocess_frame resize fp a = Inr img \<and> shape img = [h, w, 3]
           \<and> length (data img) = h * w * 3
           \<and> (\<forall>i<h * w. \<forall>c<3. data img ! (3 * i + c) = data a ! i)
           \<and> (uint8_array a \<longrightarrow> bgr24 img)"
    using preprocess_gray [of fp a h w resize] by simp
next
  assume "target_size fp = None \<and> shape a = [h, w, 4] \<and> length (data a) = h * w * 4"
  then show "\<exists>img. preprocess_frame resize fp a = Inr img \<and> shape img = [h, w, 3]
           \<and> length (data img) = h * w * 3
           \<and> (\<forall>i<h * w. \<forall>c<3. data img ! (3 * i + c) = data a ! (4 * i + c))
           \<and> (uint8_array a \<longrightarrow> bgr24 img)"
    using preprocess_bgra [of fp a h w resize] by simp
next
  assume "target_size fp = None \<and> 3 \<le> length (shape a) \<and> shape a ! 2 \<noteq> 4"
  then show "preprocess_frame resize fp a = Inr a"
    using preprocess_other [of fp a resize] by simp
qed

theorem no_face_round_trip_witness:
  "recv same_size blind_engine default_processor new_track (Inr pixel_frame)
     = (new_track\<lparr>frame_count := 1\<rparr>, Inr pixel_frame)
   \<and> preprocess_frame same_size default_processor gray_image
     = Inr \<lparr>shape = [1, 2, 3], data = [7, 7, 7, 200, 200, 200]\<rparr>
   \<and> preprocess_frame same_size default_processor bgra_image
     = Inr \<lparr>shape = [1, 2, 3], data = [1, 2, 3, 5, 6, 7]\<rparr>
   \<and> preprocess_frame same_size default_processor (array pixel_frame) = Inr (array pixel_frame)"
proof -
  have a1: "source_face new_track = None \<and> frame_count new_track = 0"
    by (simp add: new_track_def)
  have a2: "target_size default_processor = None" by (simp add: default_processor_def)
  have a3: "bgr24 (array pixel_frame) \<and> ndarray_size (array pixel_frame) \<noteq> 0"
    by (rule pixel_frame_bgr24)
  have a4: "detect_faces blind_engine (array pixel_frame) = Inr []"
    by (simp add: detect_faces_def blind_engine_def)
  have w1: "recv same_size blind_engine default_processor new_track (Inr pixel_frame)
     = (new_track\<lparr>frame_count := 1\<rparr>, Inr pixel_frame)"
    using no_face_round_trip
      [where t = new_track and fp = default_processor and frame = pixel_frame
         and eng = blind_engine and resize = same_size]
      a1 a2 a3 a4
    by simp
  have g: "shape gray_image = [1, 2] \<and> length (data gray_image) = 1 * 2"
    by (simp add: gray_image_def)
  have gx: "\<exists>img. preprocess_frame same_size default_processor gray_image = Inr img
              \<and> shape img = [1, 2, 3] \<and> length (data img) = 1 * 2 * 3
              \<and> (\<forall>i<1 * 2. \<forall>c<3. data img ! (3 * i + c) = data gray_image ! i)
              \<and> (uint8_array gray_image \<longrightarrow> bgr24 img)"
    using no_face_round_trip
      [where fp = default_processor and a = gray_image and h = 1 and w = 2
         and resize = same_size]
      a2 g
    by blast
  have w2: "preprocess_frame same_size default_processor gray_image
     = Inr \<lparr>shape = [1, 2, 3], data = [7, 7, 7, 200, 200, 200]\<rparr>"
    using gx by (simp add: preprocess_frame_def default_processor_def gray_image_def gray2bgr_def)
  have b: "shape bgra_image = [1, 2, 4] \<and> length (data bgra_image) = 1 * 2 * 4"
    by (simp add: bgra_image_def)
  have bx: "\<exists>img. preprocess_frame same_size default_processor bgra_image = Inr img
              \<and> shape img = [1, 2, 3] \<and> length (data img) = 1 * 2 * 3
              \<and> (\<forall>i<1 * 2. \<forall>c<3. data img ! (3 * i + c) = data bgra_image ! (4 * i + c))
              \<and> (uint8_array bgra_image \<longrightarrow> bgr24 img)"
    using no_face_round_trip
      [where fp = default_processor and a = bgra_image and h = 1 and w = 2
         and resize = same_size]
      a2 b
    by blast
  have w3: "preprocess_frame same_size default_processor bgra_image
     = Inr \<lparr>shape = [1, 2, 3], data = [1, 2, 3, 5, 6, 7]\<rparr>"
    using bx by (simp add: preprocess_frame_def default_processor_def bgra_image_def bgra2bgr_def)
  have o: "3 \<le> length (shape (array pixel_frame)) \<and> shape (array pixel_frame) ! 2 \<noteq> 4"
    by (simp add: pixel_frame_def)
  have w4: "preprocess_frame same_size default_processor (array pixel_frame)
              = Inr (array pixel_frame)"
    using no_face_round_trip
      [where fp = default_processor and a = "array pixel_frame" and resize = same_size]
      a2 o
    by blast
  show ?thesis using w1 w2 w3 w4 by simp
qed

section \<open>Properties of admission\<close>

lemma handle_offer_eq:
  "handle_offer negotiate srv sdp =
     (srv\<lparr>pcs := pcs srv @ [\<lparr>pc_id = created srv, connectionState = ''new''\<rparr>],
          created := Suc (created srv)\<rparr>, negotiate sdp)"
  by (simp add: handle_offer_def create_peer_connection_def Let_def)

lemma non_terminal_new: "non_terminal \<lparr>pc_id = i, connectionState = ''new''\<rparr>"
  by (simp add: non_terminal_def)

lemma push_admits:
  assumes "webrtc_server n = Some srv" and "truthy (dict_get offer_data ''offer'')"
  shows "non_terminal_sessions (fst (handle_signaling_offer negotiate n offer_data))
           = non_terminal_sessions n + 1"
    and "isl (snd (handle_signaling_offer negotiate n offer_data))
           = isl (negotiate (dict_get offer_data ''offer''))"
  using assms
  by (auto simp: handle_signaling_offer_def handle_offer_eq non_terminal_sessions_def
        non_terminal_new Let_def split: sum.splits)

lemma pull_admits:
  assumes "webrtc_server n = Some srv" and "signaling_client n = Some c"
    and "receive_offer c get_response = Some offer" and "truthy (dict_get offer ''offer'')"
  shows "non_terminal_sessions (signaling_polling_step negotiate get_response post_response n)
           = non_terminal_sessions n + 1"
  using assms
  by (auto simp: signaling_polling_step_def sleep_def handle_offer_eq non_terminal_sessions_def
        non_terminal_new Let_def split: sum.splits)

lemma push_ignores_config:
  "handle_signaling_offer negotiate (n\<lparr>config := cfg\<rparr>) offer_data
     = (fst (handle_signaling_offer negotiate n offer_data)\<lparr>config := cfg\<rparr>,
        snd (handle_signaling_offer negotiate n offer_data))"
  by (auto simp: handle_signaling_offer_def handle_offer_eq Let_def split: option.splits sum.splits)

lemma pull_ignores_capacity:
  "signaling_polling_step negotiate get_response post_response
       (n\<lparr>config := (config n)\<lparr>max_sessions := m\<rparr>\<rparr>)
     = (signaling_polling_step negotiate get_response post_response n)
         \<lparr>config := (config n)\<lparr>max_sessions := m\<rparr>\<rparr>"
  by (auto simp: signaling_polling_step_def sleep_def handle_offer_eq Let_def
        split: option.splits sum.splits)

section \<open>C1: capacity\<close>

text \<open>
  Claim C1 as stated fails: with \<open>max_sessions = 1\<close>, two offers submitted on the push
  path are both answered, and the node then has two sessions in a non-terminal state.
\<close>

theorem capacity_not_enforced_counterexample:
  "max_sessions (config started_node) = 1
   \<and> snd (handle_signaling_offer answering_transport started_node offer_s1)
       = Inr [(''answer'', JStr ''v=0 answer''), (''session_id'', JStr ''s1'')]
   \<and> snd (handle_signaling_offer answering_transport
            (fst (handle_signaling_offer answering_transport started_node offer_s1)) offer_s2)
       = Inr [(''answer'', JStr ''v=0 answer''), (''session_id'', JStr ''s2'')]
   \<and> non_terminal_sessions
         (fst (handle_signaling_offer answering_transport
            (fst (handle_signaling_offer answering_transport started_node offer_s1)) offer_s2)) = 2
   \<and> max_sessions (config
         (fst (handle_signaling_offer answering_transport
            (fst (handle_signaling_offer answering_transport started_node offer_s1)) offer_s2)))
       < int (non_terminal_sessions
         (fst (handle_signaling_offer answering_transport
            (fst (handle_signaling_offer answering_transport started_node offer_s1)) offer_s2)))"
  by (simp add: handle_signaling_offer_def handle_offer_eq started_node_def default_config_def
        answering_transport_def offer_s1_def offer_s2_def dict_get_def dict_get_default_def
        non_terminal_sessions_def non_terminal_def)

text \<open>
  Claim C1, amended. Admission does not consult \<open>max_sessions\<close>. Every offer with a
  non-empty SDP, on the push path or the pull path, adds one peer connection in a
  non-terminal state, so the number of non-terminal sessions grows by one per
  admission; the push call fails exactly when the transport's negotiation raises; and
  the outcome of either path is the same whatever the configured capacity.
\<close>

theorem admission_ignores_capacity:
  "(webrtc_server n = Some srv \<and> truthy (dict_get offer_data ''offer'')
      \<longrightarrow> non_terminal_sessions (fst (handle_signaling_offer negotiate n offer_data))
            = non_terminal_sessions n + 1
        \<and> isl (snd (handle_signaling_offer negotiate n offer_data))
            = isl (negotiate (dict_get offer_data ''offer'')))
   \<and> (webrtc_server n = Some srv \<and> signaling_client n = Some c
        \<and> receive_offer c get_response = Some offer \<and> truthy (dict_get offer ''offer'')
      \<longrightarrow> non_terminal_sessions (signaling_polling_step negotiate get_response post_response n)
            = non_terminal_sessions n + 1)
   \<and> handle_signaling_offer negotiate (n\<lparr>config := cfg\<rparr>) offer_data
       = (fst (handle_signaling_offer negotiate n offer_data)\<lparr>config := cfg\<rparr>,
          snd (handle_signaling_offer negotiate n offer_data))
   \<and> signaling_polling_step negotiate get_response post_response
         (n\<lparr>config := (config n)\<lparr>max_sessions := m\<rparr>\<rparr>)
       = (signaling_polling_step negotiate get_response post_response n)
           \<lparr>config := (config n)\<lparr>max_sessions := m\<rparr>\<rparr>"
proof (intro conjI impI)
  assume a: "webrtc_server n = Some srv \<and> truthy (dict_get offer_data ''offer'')"
  show "non_terminal_sessions (fst (handle_signaling_offer negotiate n offer_data))
            = non_terminal_sessions n + 1"
    using a push_admits(1) [of n srv offer_data negotiate] by simp
  show "isl (snd (handle_signaling_offer negotiate n offer_data))
            = isl (negotiate (dict_get offer_data ''offer''))"
    using a push_admits(2) [of n srv offer_data negotiate] by simp
next
  assume "webrtc_server n = Some srv \<and> signaling_client n = Some c
        \<and> receive_offer c get_response = Some offer \<and> truthy (dict_get offer ''offer'')"
  then show "non_terminal_sessions (signaling_polling_step negotiate get_response post_response n)
            = non_terminal_sessions n + 1"
    using pull_admits [of n srv c get_response offer negotiate post_response] by simp
next
  show "handle_signaling_offer negotiate (n\<lparr>config := cfg\<rparr>) offer_data
       = (fst (handle_signaling_offer negotiate n offer_data)\<lparr>config := cfg\<rparr>,
          snd (handle_signaling_offer negotiate n offer_data))"
    by (rule push_ignores_config)
next
  show "signaling_polling_step negotiate get_response post_response
         (n\<lparr>config := (config n)\<lparr>max_sessions := m\<rparr>\<rparr>)
       = (signaling_polling_step negotiate get_response post_response n)
           \<lparr>config := (config n)\<lparr>max_sessions := m\<rparr>\<rparr>"
    by (rule pull_ignores_capacity)
qed

theorem admission_ignores_capacity_witness:
  "non_terminal_sessions (fst (handle_signaling_offer answering_transport started_node offer_s1)) = 1
   \<and> \<not> isl (snd (handle_signaling_offer answering_transport started_node offer_s1))
   \<and> non_terminal_sessions
        (signaling_polling_step answering_transport (Inr (200, offer_s2)) (Inr 200)
           (fst (handle_signaling_offer answering_transport started_node offer_s1))) = 2"
proof -
  let ?n1 = "fst (handle_signaling_offer answering_transport started_node offer_s1)"
  have s0: "webrtc_server started_node = Some \<lparr>pcs = [], created = 0\<rparr>"
    by (simp add: started_node_def)
  have t1: "truthy (dict_get offer_s1 ''offer'')" by (simp add: dict_get_def offer_s1_def)
  have t2: "truthy (dict_get offer_s2 ''offer'')" by (simp add: dict_get_def offer_s2_def)
  have z: "non_terminal_sessions started_node = 0"
    by (simp add: non_terminal_sessions_def started_node_def)
  have i: "\<not> isl (answering_transport (dict_get offer_s1 ''offer''))"
    by (simp add: answering_transport_def)
  have s1: "webrtc_server ?n1
              = Some \<lparr>pcs = [\<lparr>pc_id = 0, connectionState = ''new''\<rparr>], created = 1\<rparr>"
    using t1 by (simp add: handle_signaling_offer_def handle_offer_eq started_node_def
          answering_transport_def)
  have c1: "signaling_client ?n1 = Some started_client"
    using t1 by (simp add: handle_signaling_offer_def handle_offer_eq started_node_def
          answering_transport_def)
  have r: "receive_offer started_client (Inr (200, offer_s2)) = Some offer_s2"
    by (simp add: receive_offer_def started_client_def has_url_def offer_s2_def)
  have first: "non_terminal_sessions ?n1 = 1 \<and> \<not> isl (snd (handle_signaling_offer answering_transport started_node offer_s1))"
    using admission_ignores_capacity
      [where n = started_node and srv = "\<lparr>pcs = [], created = 0\<rparr>"
         and offer_data = offer_s1 and negotiate = answering_transport] s0 t1 z i
    by simp
  have second: "non_terminal_sessions
        (signaling_polling_step answering_transport (Inr (200, offer_s2)) (Inr 200) ?n1)
          = non_terminal_sessions ?n1 + 1"
    using admission_ignores_capacity
      [where n = ?n1
         and srv = "\<lparr>pcs = [\<lparr>pc_id = 0, connectionState = ''new''\<rparr>], created = 1\<rparr>"
         and c = started_client and get_response = "Inr (200, offer_s2)" and offer = offer_s2
         and negotiate = answering_transport and post_response = "Inr 200"]
      s1 c1 r t2
    by simp
  show ?thesis using first second by simp
qed

section \<open>Properties of the background tasks\<close>

lemma health_step_frame:
  "webrtc_server (health_reporting_step gpu_memory response n) = webrtc_server n
   \<and> config (health_reporting_step gpu_memory response n) = config n
   \<and> clock (health_reporting_step gpu_memory response n)
       = clock n + max 0 (health_check_interval (config n))"
  by (simp add: health_reporting_step_def sleep_def Let_def split: option.splits)

lemma health_task_frame:
  "webrtc_server (health_reporting_task rounds n) = webrtc_server n
   \<and> config (health_reporting_task rounds n) = config n
   \<and> clock (health_reporting_task rounds n)
       = clock n + int (length rounds) * max 0 (health_check_interval (config n))"
proof (induction rounds arbitrary: n)
  case Nil
  then show ?case by simp
next
  case (Cons r rounds)
  obtain g resp where r: "r = (g, resp)" by (cases r)
  show ?case
    using Cons.IH [of "health_reporting_step g resp n"] health_step_frame [of g resp n] r
    by (simp add: algebra_simps)
qed

section \<open>C2: idle sessions\<close>

text \<open>
  Claim C2 as stated fails: a connected session is still registered, and still counted
  by \<open>active_count\<close>, after eleven health-report cycles of 30 seconds, 330 seconds
  during which no frame was processed, with \<open>idle_timeout = 300\<close>.
\<close>

theorem idle_session_not_swept_counterexample:
  "idle_timeout (config connected_node) = 300
   \<and> clock (health_reporting_task (replicate 11 (cpu_memory, Inr 200)) connected_node)
       - clock connected_node = 330
   \<and> webrtc_server (health_reporting_task (replicate 11 (cpu_memory, Inr 200)) connected_node)
       = Some \<lparr>pcs = [\<lparr>pc_id = 0, connectionState = ''connected''\<rparr>], created = 1\<rparr>
   \<and> active_count (health_reporting_task (replicate 11 (cpu_memory, Inr 200)) connected_node) = 1"
proof -
  let ?n = "health_reporting_task (replicate 11 (cpu_memory, Inr 200)) connected_node"
  have f: "webrtc_server ?n = webrtc_server connected_node
     \<and> clock ?n = clock connected_node
          + int (length (replicate 11 (cpu_memory, Inr 200 :: error + nat)))
            * max 0 (health_check_interval (config connected_node))"
    using health_task_frame [of "replicate 11 (cpu_memory, Inr 200)" connected_node] by simp
  have c: "health_check_interval (config connected_node) = 30
           \<and> idle_timeout (config connected_node) = 300"
    by (simp add: connected_node_def default_config_def)
  have w: "webrtc_server connected_node
             = Some \<lparr>pcs = [\<lparr>pc_id = 0, connectionState = ''connected''\<rparr>], created = 1\<rparr>"
    by (simp add: connected_node_def)
  have a: "active_count ?n = 1"
    using f w by (simp add: active_count_def get_active_connections_def)
  show ?thesis using f c w a by simp
qed

text \<open>
  Claim C2, amended. There is no idle sweep: any number of health-report cycles, however
  much time they take, leaves the registry and every connection state unchanged, so a
  session idle for longer than \<open>idle_timeout\<close> stays registered and, while connected,
  still contributes to \<open>active_count\<close>.
\<close>

theorem health_cycle_never_evicts:
  "webrtc_server (health_reporting_task rounds n) = webrtc_server n
   \<and> active_count (health_reporting_task rounds n) = active_count n
   \<and> non_terminal_sessions (health_reporting_task rounds n) = non_terminal_sessions n
   \<and> clock (health_reporting_task rounds n)
       = clock n + int (length rounds) * max 0 (health_check_interval (config n))"
  using health_task_frame [of rounds n]
  by (simp add: active_count_def non_terminal_sessions_def)

theorem health_cycle_never_evicts_witness:
  "webrtc_server (health_reporting_task (replicate 11 (cpu_memory, Inr 200)) connected_node)
       = Some \<lparr>pcs = [\<lparr>pc_id = 0, connectionState = ''connected''\<rparr>], created = 1\<rparr>
   \<and> active_count (health_reporting_task (replicate 11 (cpu_memory, Inr 200)) connected_node) = 1
   \<and> clock (health_reporting_task (replicate 11 (cpu_memory, Inr 200)) connected_node) = 330
   \<and> idle_timeout (config connected_node) = 300"
proof -
  have a: "active_count connected_node = 1"
    by (simp add: active_count_def get_active_connections_def connected_node_def)
  have w: "webrtc_server connected_node
             = Some \<lparr>pcs = [\<lparr>pc_id = 0, connectionState = ''connected''\<rparr>], created = 1\<rparr>"
    by (simp add: connected_node_def)
  have c: "clock connected_node = 0 \<and> health_check_interval (config connected_node) = 30
           \<and> idle_timeout (config connected_node) = 300"
    by (simp add: connected_node_def default_config_def)
  show ?thesis
    using a w c
      health_cycle_never_evicts
        [where rounds = "replicate 11 (cpu_memory, Inr 200)" and n = connected_node]
    by simp
qed

section \<open>C9: the pull path\<close>

lemma truthy_offer_nonempty: "truthy (dict_get offer k) \<Longrightarrow> offer \<noteq> []"
  by (auto simp: dict_get_def)

text \<open>
  Claim C9. When the poll receives an offer carrying a session id and a non-empty SDP
  and negotiation returns an answer, the iteration issues exactly one request: the POST
  of that answer to the orchestrator's answers endpoint, tagged with the offer's session
  id. An iteration that receives no offer issues none.
\<close>

theorem pull_path_dispatches_answer_once:
  "(signaling_client n = Some c \<and> session c \<and> has_url c \<and> webrtc_server n = Some srv
      \<and> get_response = Inr (200, offer)
      \<and> map_of offer ''session_id'' = Some sid
      \<and> truthy (dict_get offer ''offer'')
      \<and> negotiate (dict_get offer ''offer'') = Inr answer
    \<longrightarrow> posted (signaling_polling_step negotiate get_response post_response n)
          = posted n @
            [POST (str_opt (orchestrator_url c) @ ''/nodes/'' @ str_opt (node_id c) @ ''/answers'')
                  [(''session_id'', sid), (''answer'', JStr answer)]])
   \<and> (signaling_client n = Some c \<and> receive_offer c get_response = None
    \<longrightarrow> posted (signaling_polling_step negotiate get_response post_response n) = posted n)"
proof (intro conjI impI)
  assume a: "signaling_client n = Some c \<and> session c \<and> has_url c \<and> webrtc_server n = Some srv
      \<and> get_response = Inr (200, offer)
      \<and> map_of offer ''session_id'' = Some sid
      \<and> truthy (dict_get offer ''offer'')
      \<and> negotiate (dict_get offer ''offer'') = Inr answer"
  then have ne: "offer \<noteq> []" using truthy_offer_nonempty by blast
  have r: "receive_offer c get_response = Some offer"
    using a ne by (simp add: receive_offer_def)
  have s: "dict_get offer ''session_id'' = sid" using a by (simp add: dict_get_def)
  show "posted (signaling_polling_step negotiate get_response post_response n)
          = posted n @
            [POST (str_opt (orchestrator_url c) @ ''/nodes/'' @ str_opt (node_id c) @ ''/answers'')
                  [(''session_id'', sid), (''answer'', JStr answer)]]"
    using a r s
    by (simp add: signaling_polling_step_def sleep_def handle_offer_eq send_answer_def Let_def)
next
  assume "signaling_client n = Some c \<and> receive_offer c get_response = None"
  then show "posted (signaling_polling_step negotiate get_response post_response n) = posted n"
    by (simp add: signaling_polling_step_def sleep_def Let_def)
qed

theorem pull_path_dispatches_answer_once_witness:
  "posted (signaling_polling_step answering_transport (Inr (200, offer_s1)) (Inr 200) started_node)
     = [POST ''http://orchestrator/nodes/node-1/answers''
          [(''session_id'', JStr ''s1''), (''answer'', JStr ''v=0 answer'')]]
   \<and> posted (signaling_polling_step answering_transport (Inr (200, [])) (Inr 200) started_node) = []"
proof -
  have a1: "signaling_client started_node = Some started_client" by (simp add: started_node_def)
  have a2: "session started_client \<and> has_url started_client"
    by (simp add: started_client_def has_url_def)
  have a3: "webrtc_server started_node = Some \<lparr>pcs = [], created = 0\<rparr>"
    by (simp add: started_node_def)
  have a4: "map_of offer_s1 ''session_id'' = Some (JStr ''s1'')" by (simp add: offer_s1_def)
  have a5: "truthy (dict_get offer_s1 ''offer'')" by (simp add: offer_s1_def dict_get_def)
  have a6: "answering_transport (dict_get offer_s1 ''offer'') = Inr ''v=0 answer''"
    by (simp add: answering_transport_def)
  have u: "str_opt (orchestrator_url started_client) @ ''/nodes/'' @ str_opt (node_id started_client)
             @ ''/answers'' = ''http://orchestrator/nodes/node-1/answers''"
    by (simp add: started_client_def str_opt_def)
  have p0: "posted started_node = []" by (simp add: started_node_def)
  have b: "receive_offer started_client (Inr (200, [])) = None"
    by (simp add: receive_offer_def)
  show ?thesis
    using a1 a2 a3 a4 a5 a6 u p0 b
      pull_path_dispatches_answer_once
        [where n = started_node and c = started_client and srv = "\<lparr>pcs = [], created = 0\<rparr>"
           and get_response = "Inr (200, offer_s1)" and offer = offer_s1 and sid = "JStr ''s1''"
           and negotiate = answering_transport and answer = "''v=0 answer''"
           and post_response = "Inr 200"]
      pull_path_dispatches_answer_once
        [where n = started_node and c = started_client and get_response = "Inr (200, [])"
           and negotiate = answering_transport and post_response = "Inr 200"]
    by simp
qed

section \<open>C10: a push offer without session id\<close>

text \<open>
  Claim C10. A push-path submission with a non-empty offer SDP and no \<open>session_id\<close>
  field, on an initialized server, fails only when negotiation raises (status 500);
  otherwise it returns the negotiated answer with \<open>session_id\<close> equal to the string
  "unknown".
\<close>

theorem push_offer_without_session_id:
  assumes "webrtc_server n = Some srv"
    and "truthy (dict_get offer_data ''offer'')"
    and "map_of offer_data ''session_id'' = None"
  shows "snd (handle_signaling_offer negotiate n offer_data)
           = (case negotiate (dict_get offer_data ''offer'') of
                Inl e \<Rightarrow> Inl (HTTPException 500 (Str e))
              | Inr answer \<Rightarrow>
                  Inr [(''answer'', JStr answer), (''session_id'', JStr ''unknown'')])"
  using assms
  by (simp add: handle_signaling_offer_def handle_offer_eq dict_get_default_def Let_def
        split: sum.splits)

theorem push_offer_without_session_id_witness:
  "snd (handle_signaling_offer answering_transport started_node offer_without_id)
     = Inr [(''answer'', JStr ''v=0 answer''), (''session_id'', JStr ''unknown'')]"
proof -
  have a1: "webrtc_server started_node = Some \<lparr>pcs = [], created = 0\<rparr>"
    by (simp add: started_node_def)
  have a2: "truthy (dict_get offer_without_id ''offer'')"
    by (simp add: offer_without_id_def dict_get_def)
  have a3: "map_of offer_without_id ''session_id'' = None" by (simp add: offer_without_id_def)
  show ?thesis
    using push_offer_without_session_id [OF a1 a2 a3, of answering_transport]
    by (simp add: answering_transport_def)
qed

end
